theory Spec2Isabelle
  imports Main "HOL-Library.Char_ord" "HOL-Library.List_Lexorder"
begin

section \<open>JSON documents\<close>

text \<open>
  A JSON document as \<^verbatim>\<open>JSON.parse\<close> returns it. A string is the list of its code
  units (those below 256), ordered as JavaScript compares strings: lexicographically by
  code unit, a proper prefix first. A number is an integer; the documents this program
  builds hold no other. An object is the list of its own properties in the order
  JavaScript enumerates them (\<^verbatim>\<open>Object.keys\<close>, \<^verbatim>\<open>JSON.stringify\<close>,
  object spread): array-index keys first, by ascending numeric value, then the other keys in
  the order they were created. A parsed document shares no object between two places, so
  a value stands for the object it describes.
\<close>

datatype json =
    JNull
  | JBool bool
  | JNum int
  | JStr string
  | JArr "json list"
  | JObj "(string \<times> json) list"

type_synonym props = "(string \<times> json) list"

subsection \<open>Decimal numerals and array-index keys\<close>

definition digit_char :: "nat \<Rightarrow> char" where
  "digit_char d = ''0123456789'' ! d"

fun dec :: "nat \<Rightarrow> string" where
  "dec n = (if n < 10 then [digit_char n] else dec (n div 10) @ [digit_char (n mod 10)])"

declare dec.simps [simp del]

definition is_digit :: "char \<Rightarrow> bool" where
  "is_digit c = (48 \<le> (of_char c :: nat) \<and> (of_char c :: nat) \<le> 57)"

definition index_value :: "string \<Rightarrow> nat" where
  "index_value s = foldl (\<lambda>a c. 10 * a + ((of_char c :: nat) - 48)) 0 s"

text \<open>
  ECMAScript: a property key is an array index when it is the canonical decimal numeral
  (\<^verbatim>\<open>ToString(ToUint32(key)) = key\<close>) of an integer below \<open>2\<^sup>3\<^sup>2 - 1\<close>.
\<close>

definition is_array_index :: "string \<Rightarrow> bool" where
  "is_array_index s =
     (if s \<noteq> [] \<and> list_all is_digit s
      then index_value s < 4294967295 \<and> dec (index_value s) = s
      else False)"

subsection \<open>Own properties\<close>

definition keys :: "props \<Rightarrow> string list" where
  "keys ps = map fst ps"

definition get_prop :: "props \<Rightarrow> string \<Rightarrow> json option" where
  "get_prop ps k = map_of ps k"

text \<open>
  \<open>precedes k k'\<close>: a new key \<open>k\<close> is enumerated before the existing key \<open>k'\<close>.
\<close>

definition precedes :: "string \<Rightarrow> string \<Rightarrow> bool" where
  "precedes k k' =
     (if is_array_index k
      then (if is_array_index k' then index_value k < index_value k' else True)
      else False)"

fun insert_prop :: "string \<Rightarrow> json \<Rightarrow> props \<Rightarrow> props" where
  "insert_prop k v [] = [(k, v)]"
| "insert_prop k v ((k', v') # ps) =
     (if precedes k k' then (k, v) # (k', v') # ps else (k', v') # insert_prop k v ps)"

fun replace_prop :: "string \<Rightarrow> json \<Rightarrow> props \<Rightarrow> props" where
  "replace_prop k v [] = []"
| "replace_prop k v ((k', v') # ps) =
     (if k' = k then (k, v) # ps else (k', v') # replace_prop k v ps)"

text \<open>
  \<^verbatim>\<open>obj[k] = v\<close> on an ordinary object: an existing property keeps its place and gets the
  new value; a new property takes its place in the enumeration order.
\<close>

definition set_prop :: "props \<Rightarrow> string \<Rightarrow> json \<Rightarrow> props" where
  "set_prop ps k v = (if k \<in> set (keys ps) then replace_prop k v ps else insert_prop k v ps)"

section \<open>Key sorter\<close>

text \<open>
  \<^verbatim>\<open>
  export function sortObjectByKeys(obj) {
      return Object.keys(obj)
          .sort()
          .reduce((result, key) => {
              return { ...result, [key]: obj[key] };
          }, {});
  }
  \<close>
  The spread copies \<open>result\<close> into a new object in its enumeration order, then the computed
  key is set on the copy. \<open>key\<close> ranges over \<^verbatim>\<open>Object.keys(obj)\<close>, so \<^verbatim>\<open>obj[key]\<close> is
  an own property.
\<close>

definition spread_with :: "props \<Rightarrow> props \<Rightarrow> string \<Rightarrow> props" where
  "spread_with obj result key =
     (case get_prop obj key of Some v \<Rightarrow> set_prop result key v | None \<Rightarrow> result)"

definition sortObjectByKeys :: "props \<Rightarrow> props" where
  "sortObjectByKeys obj = foldl (spread_with obj) [] (sort (keys obj))"


text \<open>
  The enumeration order the result is built in, as a relation on keys: an array index
  before any other key, array indices by numeric value, the other keys as \<^verbatim>\<open>sort()\<close>
  orders them.
\<close>

definition enum_lt :: "string \<Rightarrow> string \<Rightarrow> bool" where
  "enum_lt k k' =
     (if is_array_index k
      then (if is_array_index k' then index_value k < index_value k' else True)
      else (if is_array_index k' then False else k < k'))"

subsection \<open>The key sorter on a store of objects\<close>

text \<open>
  To say that \<open>sortObjectByKeys\<close> leaves its argument alone, objects live in a store and are
  passed by address (an index into the store). \<^verbatim>\<open>{}\<close> and every
  \<^verbatim>\<open>{ ...result, [key]: obj[key] }\<close> allocate a new object; nothing is written to an
  existing one.
\<close>

type_synonym heap = "props list"

definition alloc :: "heap \<Rightarrow> props \<Rightarrow> heap \<times> nat" where
  "alloc h ps = (h @ [ps], length h)"

definition reduce_step :: "nat \<Rightarrow> heap \<times> nat \<Rightarrow> string \<Rightarrow> heap \<times> nat" where
  "reduce_step obj hr key =
     (case hr of (h, result) \<Rightarrow> alloc h (spread_with (h ! obj) (h ! result) key))"

definition sortObjectByKeys_heap :: "heap \<Rightarrow> nat \<Rightarrow> heap \<times> nat" where
  "sortObjectByKeys_heap h obj = foldl (reduce_step obj) (alloc h []) (sort (keys (h ! obj)))"

section \<open>Errors\<close>

text \<open>
  \<open>Error msg\<close> is \<^verbatim>\<open>throw new Error(msg)\<close> in this repository's code. \<open>TypeError\<close> and
  \<open>SyntaxError\<close> are thrown by the JavaScript runtime (a property read on \<^verbatim>\<open>null\<close> or
  \<^verbatim>\<open>undefined\<close>, \<^verbatim>\<open>in\<close> on a non-object, a property write on a primitive in strict
  mode; \<^verbatim>\<open>JSON.parse\<close> outside a \<^verbatim>\<open>try\<close>). \<open>FileAlreadyExists\<close> and
  \<open>FileDoesNotExist\<close> are the exceptions of the workspace tree's \<^verbatim>\<open>create\<close> and
  \<^verbatim>\<open>overwrite\<close>, with the normalised path. \<open>OutsideModel\<close> is no exception: it marks
  an execution this theory does not follow (a named property written onto an array, a
  file created below a file, a directory overwritten).
\<close>

datatype error =
    Error string
  | TypeError
  | SyntaxError string
  | FileAlreadyExists string
  | FileDoesNotExist string
  | OutsideModel

section \<open>Dependency merger\<close>

text \<open>
  \<^verbatim>\<open>
  function addPackageJsonDeps(packageJson, options): object {
      if (typeof packageJson !== 'object') {
          return packageJson;
      }
      function addDeps(section: 'dependencies' | 'devDependencies'): void {
          if (!options[section]) {
              return;
          }
          if (!(section in packageJson)) {
              packageJson[section] = {};
          }
          Object.entries(options[section] ?? {}).forEach(([packageToAdd, version]) => {
              packageJson[section][packageToAdd] = version;
          });
      }
      addDeps('dependencies');
      addDeps('devDependencies');
      return packageJson;
  }
  \<close>
  \<open>options\<close> has the declared type: each section is absent or a mapping from package name
  to version string. \<open>packageJson\<close> is whatever \<^verbatim>\<open>JSON.parse\<close> returned, a
  document none of whose objects is reachable twice. The source updates \<open>packageJson\<close> in
  place and returns it; the model returns the updated value.
  \<^verbatim>\<open>typeof null\<close> is \<^verbatim>\<open>'object'\<close>, as is \<^verbatim>\<open>typeof\<close> of an array.
\<close>

datatype dep_section = Dependencies | DevDependencies

fun section_name :: "dep_section \<Rightarrow> string" where
  "section_name Dependencies = ''dependencies''"
| "section_name DevDependencies = ''devDependencies''"

record options =
  dependencies :: "(string \<times> string) list option"
  devDependencies :: "(string \<times> string) list option"

fun requested :: "options \<Rightarrow> dep_section \<Rightarrow> (string \<times> string) list option" where
  "requested opts Dependencies = dependencies opts"
| "requested opts DevDependencies = devDependencies opts"

definition typeof_object :: "json \<Rightarrow> bool" where
  "typeof_object j = (case j of JNull \<Rightarrow> True | JArr _ \<Rightarrow> True | JObj _ \<Rightarrow> True | _ \<Rightarrow> False)"

text \<open>
  \<^verbatim>\<open>target[name] = version\<close> with a string \<open>version\<close>. The assignment looks the name
  up along the prototype chain: \<^verbatim>\<open>__proto__\<close>, where the object has no own property of
  that name, is the accessor of \<^verbatim>\<open>Object.prototype\<close>, whose setter ignores a string, so
  that nothing is written. Under every other name, and under an own \<^verbatim>\<open>__proto__\<close> (which
  \<^verbatim>\<open>JSON.parse\<close> creates), the assignment sets an own property.
\<close>

definition settable :: "props \<Rightarrow> string \<Rightarrow> bool" where
  "settable ps name = (if name = ''__proto__'' then name \<in> set (keys ps) else True)"

definition assign_version :: "props \<Rightarrow> string \<Rightarrow> string \<Rightarrow> props" where
  "assign_version ps name version =
     (if settable ps name then set_prop ps name (JStr version) else ps)"

text \<open>
  The \<^verbatim>\<open>forEach\<close> over the requested entries, on the value of
  \<^verbatim>\<open>packageJson[section]\<close>. With no entry nothing is written, whatever the value is.
\<close>

fun set_entries :: "json \<Rightarrow> (string \<times> string) list \<Rightarrow> error + json" where
  "set_entries target [] = Inr target"
| "set_entries (JObj ps) ((packageToAdd, version) # entries) =
     set_entries (JObj (assign_version ps packageToAdd version)) entries"
| "set_entries (JArr xs) (entry # entries) = Inl OutsideModel"
| "set_entries target (entry # entries) = Inl TypeError"

definition addDeps :: "options \<Rightarrow> dep_section \<Rightarrow> json \<Rightarrow> error + json" where
  "addDeps opts sec packageJson =
     (case requested opts sec of
        None \<Rightarrow> Inr packageJson
      | Some entries \<Rightarrow>
          (case packageJson of
             JObj ps \<Rightarrow>
               (let ps' = (if section_name sec \<in> set (keys ps) then ps
                           else set_prop ps (section_name sec) (JObj []))
                in case get_prop ps' (section_name sec) of
                     None \<Rightarrow> Inl TypeError
                   | Some target \<Rightarrow>
                       (case set_entries target entries of
                          Inl e \<Rightarrow> Inl e
                        | Inr target' \<Rightarrow> Inr (JObj (set_prop ps' (section_name sec) target'))))
           | JArr xs \<Rightarrow> Inl OutsideModel
           | _ \<Rightarrow> Inl TypeError))"

definition addPackageJsonDeps :: "json \<Rightarrow> options \<Rightarrow> error + json" where
  "addPackageJsonDeps packageJson opts =
     (if \<not> typeof_object packageJson then Inr packageJson
      else case addDeps opts Dependencies packageJson of
             Inl e \<Rightarrow> Inl e
           | Inr packageJson' \<Rightarrow> addDeps opts DevDependencies packageJson')"


section \<open>Serialization\<close>

text \<open>
  \<^verbatim>\<open>JSON.stringify(value, null, space)\<close> as ECMAScript defines it on JSON values
  (\<^verbatim>\<open>SerializeJSONProperty\<close>, \<^verbatim>\<open>SerializeJSONObject\<close>, \<^verbatim>\<open>SerializeJSONArray\<close>,
  \<^verbatim>\<open>QuoteJSONString\<close>): \<open>gap\<close> is \<open>space\<close> blanks (at most ten), \<open>indent\<close> grows by
  \<open>gap\<close> at every nesting level, and an object's members come in its enumeration order.
\<close>

definition hex_char :: "nat \<Rightarrow> char" where
  "hex_char d = ''0123456789abcdef'' ! d"

definition quote_unit :: "char \<Rightarrow> string" where
  "quote_unit c =
     (if c = CHR 0x08 then [CHR 0x5C, CHR ''b'']
      else if c = CHR 0x09 then [CHR 0x5C, CHR ''t'']
      else if c = CHR 0x0A then [CHR 0x5C, CHR ''n'']
      else if c = CHR 0x0C then [CHR 0x5C, CHR ''f'']
      else if c = CHR 0x0D then [CHR 0x5C, CHR ''r'']
      else if c = CHR 0x22 then [CHR 0x5C, CHR 0x22]
      else if c = CHR 0x5C then [CHR 0x5C, CHR 0x5C]
      else if (of_char c :: nat) < 32
        then [CHR 0x5C, CHR ''u'', CHR ''0'', CHR ''0'',
              hex_char ((of_char c :: nat) div 16), hex_char ((of_char c :: nat) mod 16)]
      else [c])"

definition QuoteJSONString :: "string \<Rightarrow> string" where
  "QuoteJSONString s = CHR 0x22 # concat (map quote_unit s) @ [CHR 0x22]"

definition show_int :: "int \<Rightarrow> string" where
  "show_int i = (if i < 0 then CHR ''-'' # dec (nat (- i)) else dec (nat i))"

fun join_strings :: "string \<Rightarrow> string list \<Rightarrow> string" where
  "join_strings sep [] = []"
| "join_strings sep [x] = x"
| "join_strings sep (x # y # ys) = x @ sep @ join_strings sep (y # ys)"

definition wrap :: "string \<Rightarrow> string \<Rightarrow> string \<Rightarrow> string \<Rightarrow> string list \<Rightarrow> string" where
  "wrap gap stepback opening closing partial =
     (if partial = [] then opening @ closing
      else if gap = [] then opening @ join_strings '','' partial @ closing
      else opening @ [CHR 0x0A] @ stepback @ gap
           @ join_strings ('','' @ [CHR 0x0A] @ stepback @ gap) partial
           @ [CHR 0x0A] @ stepback @ closing)"

fun SerializeJSONProperty :: "string \<Rightarrow> string \<Rightarrow> json \<Rightarrow> string"
  and serialize_elements :: "string \<Rightarrow> string \<Rightarrow> json list \<Rightarrow> string list"
  and serialize_members :: "string \<Rightarrow> string \<Rightarrow> (string \<times> json) list \<Rightarrow> string list"
where
  "SerializeJSONProperty gap indent JNull = ''null''"
| "SerializeJSONProperty gap indent (JBool b) = (if b then ''true'' else ''false'')"
| "SerializeJSONProperty gap indent (JNum n) = show_int n"
| "SerializeJSONProperty gap indent (JStr s) = QuoteJSONString s"
| "SerializeJSONProperty gap indent (JArr xs) =
     wrap gap indent ''['' '']'' (serialize_elements gap (indent @ gap) xs)"
| "SerializeJSONProperty gap indent (JObj ps) =
     wrap gap indent ''{'' ''}'' (serialize_members gap (indent @ gap) ps)"
| "serialize_elements gap indent [] = []"
| "serialize_elements gap indent (x # xs) =
     SerializeJSONProperty gap indent x # serialize_elements gap indent xs"
| "serialize_members gap indent [] = []"
| "serialize_members gap indent ((k, v) # ps) =
     (QuoteJSONString k @ '':'' @ (if gap = [] then [] else '' '')
        @ SerializeJSONProperty gap indent v)
     # serialize_members gap indent ps"

definition JSON_stringify :: "json \<Rightarrow> nat \<Rightarrow> string" where
  "JSON_stringify v space = SerializeJSONProperty (replicate (min 10 space) CHR '' '') [] v"

text \<open>
  \<^verbatim>\<open>
  function serializeJson(json: unknown): string {
      return `${JSON.stringify(json, null, 2)}\n`;
  }
  \<close>
\<close>

definition serializeJson :: "json \<Rightarrow> string" where
  "serializeJson json = JSON_stringify json 2 @ [CHR 0x0A]"


section \<open>Workspace tree, schematic context and the outside world\<close>

text \<open>
  The workspace tree maps the path of a file to its text. The tree resolves every path
  against the root, so \<^verbatim>\<open>package.json\<close> and \<^verbatim>\<open>/package.json\<close> name one file.
  \<open>tree_path\<close> is the tree's path normalisation on plain paths: segments separated by
  single slashes, after an optional leading slash, none of them empty, \<^verbatim>\<open>.\<close> or
  \<^verbatim>\<open>..\<close>, and without a backslash. Directories are not stored: a directory is a path
  that some file lies below. \<^verbatim>\<open>exists\<close> and \<^verbatim>\<open>read\<close> see files only;
  \<^verbatim>\<open>create\<close> refuses a path at which a file or a directory exists, and
  \<^verbatim>\<open>overwrite\<close> a path at which nothing exists.
\<close>

type_synonym tree = "string \<rightharpoonup> string"

definition tree_path :: "string \<Rightarrow> string" where
  "tree_path p = (case p of [] \<Rightarrow> ''/'' | c # cs \<Rightarrow> if c = CHR ''/'' then p else CHR ''/'' # p)"

definition tree_exists :: "tree \<Rightarrow> string \<Rightarrow> bool" where
  "tree_exists t p = (t (tree_path p) \<noteq> None)"

definition tree_read :: "tree \<Rightarrow> string \<Rightarrow> string option" where
  "tree_read t p = t (tree_path p)"

fun starts_with :: "string \<Rightarrow> string \<Rightarrow> bool" where
  "starts_with [] whole = True"
| "starts_with (c # cs) [] = False"
| "starts_with (c # cs) (d # ds) = (c = d \<and> starts_with cs ds)"

fun split_slash :: "string \<Rightarrow> string \<Rightarrow> string list" where
  "split_slash segment [] = [rev segment]"
| "split_slash segment (c # cs) =
     (if c = CHR ''/'' then rev segment # split_slash [] cs else split_slash (c # segment) cs)"

definition plain_segment :: "string \<Rightarrow> bool" where
  "plain_segment segment =
     (segment \<noteq> [] \<and> segment \<noteq> ''.'' \<and> segment \<noteq> ''..'' \<and> CHR 0x5C \<notin> set segment)"

definition plain_path :: "string \<Rightarrow> bool" where
  "plain_path p =
     list_all plain_segment
       (split_slash [] (case p of [] \<Rightarrow> [] | c # cs \<Rightarrow> if c = CHR ''/'' then cs else p))"

definition is_directory :: "tree \<Rightarrow> string \<Rightarrow> bool" where
  "is_directory t p = (\<exists>file \<in> dom t. starts_with (tree_path p @ ''/'') file)"

definition below_file :: "tree \<Rightarrow> string \<Rightarrow> bool" where
  "below_file t p = (\<exists>file \<in> dom t. starts_with (file @ ''/'') (tree_path p))"

definition tree_create :: "tree \<Rightarrow> string \<Rightarrow> string \<Rightarrow> error + tree" where
  "tree_create t p content =
     (if tree_exists t p \<or> is_directory t p then Inl (FileAlreadyExists (tree_path p))
      else if below_file t p then Inl OutsideModel
      else Inr (t(tree_path p \<mapsto> content)))"

definition tree_overwrite :: "tree \<Rightarrow> string \<Rightarrow> string \<Rightarrow> error + tree" where
  "tree_overwrite t p content =
     (if tree_exists t p then Inr (t(tree_path p \<mapsto> content))
      else if is_directory t p then Inl OutsideModel
      else Inl (FileDoesNotExist (tree_path p)))"

text \<open>
  The schematic context collects the scheduled tasks and what was logged. The three
  \<^verbatim>\<open>context.logger.info\<close> messages are constant texts, one per package writer;
  \<^verbatim>\<open>console.log(projectName, angularJSON.projects)\<close> is kept with its two arguments.
\<close>

datatype task = NodePackageInstallTask

datatype notice =
    ConsoleLog string "json option"
  | PrettierPackagesAdded
  | ESLintPluginsAdded
  | StylelintPackagesAdded

record schematic_context =
  tasks :: "task list"
  logged :: "notice list"

record world =
  tree :: tree
  ctx :: schematic_context

text \<open>
  A rule takes the world to a new world, or throws: \<open>Inl (e, w)\<close> is the exception \<open>e\<close>
  thrown in the world \<open>w\<close>, the state in which the run aborted.
\<close>

type_synonym rule = "world \<Rightarrow> (error \<times> world) + world"

text \<open>
  What this repository calls and does not define:
  \<^item> \<open>JSON_parse\<close>: \<^verbatim>\<open>JSON.parse\<close>; \<open>Inl m\<close> is the \<^verbatim>\<open>SyntaxError\<close> with message \<open>m\<close>;
  \<^item> \<open>stripJsonComments\<close>: the package \<^verbatim>\<open>strip-json-comments\<close>;
  \<^item> \<open>path_normalize\<close>, \<open>path_join\<close>: \<^verbatim>\<open>normalize\<close> and \<^verbatim>\<open>join\<close> of
    \<^verbatim>\<open>@angular-devkit/core\<close>; \<open>path_normalize\<close> receives the value found under
    \<^verbatim>\<open>root\<close> (\<open>None\<close> is \<^verbatim>\<open>undefined\<close>);
  \<^item> \<open>inherited v name\<close>: whether \<^verbatim>\<open>v[name]\<close> finds \<open>name\<close> beyond the properties
    \<^verbatim>\<open>Object.keys(v)\<close> lists, in a built-in prototype (\<^verbatim>\<open>constructor\<close>,
    \<^verbatim>\<open>toString\<close>, ...) or as \<^verbatim>\<open>length\<close>;
  \<^item> \<open>externalSchematic\<close>: the schematic of another collection, by collection name,
    schematic name and project.
\<close>

record env =
  JSON_parse :: "string \<Rightarrow> string + json"
  stripJsonComments :: "string \<Rightarrow> string"
  path_normalize :: "json option \<Rightarrow> error + string"
  path_join :: "string \<Rightarrow> string \<Rightarrow> string"
  inherited :: "json \<Rightarrow> string \<Rightarrow> bool"
  externalSchematic :: "string \<Rightarrow> string \<Rightarrow> string \<Rightarrow> rule"

definition raising :: "world \<Rightarrow> error + 'a \<Rightarrow> ('a \<Rightarrow> (error \<times> world) + 'b) \<Rightarrow> (error \<times> world) + 'b" where
  "raising w r k = (case r of Inl e \<Rightarrow> Inl (e, w) | Inr x \<Rightarrow> k x)"

section \<open>JSON document store\<close>

text \<open>
  \<^verbatim>\<open>
  function readJsonInTree<T = any>(host: Tree, path: string): T {
      if (!host.exists(path)) {
          throw new Error(`Cannot find ${path}`);
      }
      const contents = stripJsonComments((host.read(path) as Buffer).toString('utf-8'));
      try {
          return JSON.parse(contents);
      } catch (e) {
          throw new Error(`Cannot parse ${path}: ${e.message}`);
      }
  }
  \<close>
\<close>

definition readJsonInTree :: "env \<Rightarrow> tree \<Rightarrow> string \<Rightarrow> error + json" where
  "readJsonInTree E host path =
     (if \<not> tree_exists host path then Inl (Error (''Cannot find '' @ path))
      else case tree_read host path of
             None \<Rightarrow> Inl TypeError
           | Some text \<Rightarrow>
               (case JSON_parse E (stripJsonComments E text) of
                  Inl message \<Rightarrow> Inl (Error (''Cannot parse '' @ path @ '': '' @ message))
                | Inr json \<Rightarrow> Inr json))"

text \<open>
  \<^verbatim>\<open>
  function updateJsonInTree<T = any, O = T>(path, callback: (json: T, context) => O): Rule {
      return (host: Tree, context: SchematicContext): Tree => {
          if (!host.exists(path)) {
              host.create(path, serializeJson(callback({} as T, context)));
              return host;
          }
          host.overwrite(path, serializeJson(callback(readJsonInTree(host, path), context)));
          return host;
      };
  }
  \<close>
  The callbacks of this repository are constant functions; a callback is a function of the
  document and the context.
\<close>

definition updateJsonInTree ::
  "env \<Rightarrow> string \<Rightarrow> (json \<Rightarrow> schematic_context \<Rightarrow> json) \<Rightarrow> rule" where
  "updateJsonInTree E path callback w =
     (if \<not> tree_exists (tree w) path
      then raising w (tree_create (tree w) path (serializeJson (callback (JObj []) (ctx w))))
             (\<lambda>host. Inr (w\<lparr>tree := host\<rparr>))
      else raising w (readJsonInTree E (tree w) path)
             (\<lambda>json. raising w
                (tree_overwrite (tree w) path (serializeJson (callback json (ctx w))))
                (\<lambda>host. Inr (w\<lparr>tree := host\<rparr>))))"

section \<open>Property reads on parsed documents\<close>

text \<open>
  \<open>own_properties v\<close>: what \<^verbatim>\<open>Object.keys(v)\<close> lists and \<^verbatim>\<open>v[key]\<close> reads for a
  value \<open>v\<close> other than \<^verbatim>\<open>null\<close>: the properties of an object, the elements of an array,
  the code units of a string, nothing for a number or a boolean.
\<close>

definition own_properties :: "json \<Rightarrow> props" where
  "own_properties v =
     (case v of
        JObj ps \<Rightarrow> ps
      | JArr xs \<Rightarrow> zip (map dec [0..<length xs]) xs
      | JStr s \<Rightarrow> zip (map dec [0..<length s]) (map (\<lambda>c. JStr [c]) s)
      | _ \<Rightarrow> [])"

definition Object_keys :: "json option \<Rightarrow> error + string list" where
  "Object_keys v =
     (case v of
        None \<Rightarrow> Inl TypeError
      | Some JNull \<Rightarrow> Inl TypeError
      | Some x \<Rightarrow> Inr (keys (own_properties x)))"

text \<open>
  \<^verbatim>\<open>v.name\<close> for the names this program reads (\<^verbatim>\<open>projects\<close>, \<^verbatim>\<open>prefix\<close>,
  \<^verbatim>\<open>root\<close>, \<^verbatim>\<open>devDependencies\<close>), which no built-in prototype defines: \<open>None\<close> is
  \<^verbatim>\<open>undefined\<close>.
\<close>

definition get_member :: "json \<Rightarrow> string \<Rightarrow> error + json option" where
  "get_member v name =
     (case v of
        JNull \<Rightarrow> Inl TypeError
      | JObj ps \<Rightarrow> Inr (get_prop ps name)
      | _ \<Rightarrow> Inr None)"

text \<open>
  \<^verbatim>\<open>angularJSON.projects[projectName]\<close>, for any project name: a JSON value, a built-in
  (a method of a prototype, a length), or \<^verbatim>\<open>undefined\<close>.
\<close>

datatype jsvalue = Undefined | Value json | Builtin

definition get_project :: "env \<Rightarrow> json option \<Rightarrow> string \<Rightarrow> error + jsvalue" where
  "get_project E projects projectName =
     (case projects of
        None \<Rightarrow> Inl TypeError
      | Some JNull \<Rightarrow> Inl TypeError
      | Some v \<Rightarrow>
          (case get_prop (own_properties v) projectName of
             Some x \<Rightarrow> Inr (Value x)
           | None \<Rightarrow> if inherited E v projectName then Inr Builtin else Inr Undefined))"

text \<open>
  \<^verbatim>\<open>const { name } = value\<close>, for the names \<^verbatim>\<open>prefix\<close> and \<^verbatim>\<open>root\<close>.
\<close>

definition destructure :: "jsvalue \<Rightarrow> string \<Rightarrow> error + json option" where
  "destructure value name =
     (case value of
        Undefined \<Rightarrow> Inl TypeError
      | Builtin \<Rightarrow> Inr None
      | Value v \<Rightarrow> get_member v name)"


section \<open>Config builders\<close>

text \<open>
  The three object literals of the source, property by property in the order written.
  \<open>prefix\<close> is whatever value the project descriptor holds under \<^verbatim>\<open>prefix\<close>.
\<close>

definition createProjectESLintConfig :: "json \<Rightarrow> json" where
  "createProjectESLintConfig prefix =
     JObj
       [(''root'', JBool True),
        (''ignorePatterns'', JArr [JStr ''projects/**/*'']),
        (''overrides'', JArr
            [JObj
               [(''files'', JArr [JStr ''*.ts'']),
                (''parserOptions'', JObj
                    [(''project'', JArr [JStr ''tsconfig.json'']),
                     (''createDefaultProgram'', JBool True)]),
                (''extends'', JArr
                    [JStr ''eslint:recommended'',
                     JStr ''plugin:@typescript-eslint/recommended'',
                     JStr ''plugin:@typescript-eslint/recommended-requiring-type-checking'',
                     JStr ''plugin:rxjs/recommended'',
                     JStr ''plugin:@angular-eslint/recommended'',
                     JStr ''plugin:@angular-eslint/recommended--extra'',
                     JStr ''plugin:@angular-eslint/template/process-inline-templates'',
                     JStr ''plugin:import/recommended'',
                     JStr ''plugin:import/typescript'',
                     JStr ''plugin:prettier/recommended'']),
                (''settings'', JObj
                    [(''import/resolver'', JObj
                         [(''typescript'', JObj
                              [(''alwaysTryTypes'', JBool True),
                               (''project'', JArr [JStr ''tsconfig.json''])])])]),
                (''rules'', JObj
                    [(''prettier/prettier'', JStr ''error''),
                     (''@angular-eslint/component-selector'', JArr
                         [JStr ''error'',
                          JObj
                            [(''type'', JStr ''element''),
                             (''prefix'', prefix),
                             (''style'', JStr ''kebab-case'')]]),
                     (''@angular-eslint/directive-selector'', JArr
                         [JStr ''error'',
                          JObj
                            [(''type'', JStr ''attribute''),
                             (''prefix'', prefix),
                             (''style'', JStr ''camelCase'')]]),
                     (''@angular-eslint/use-lifecycle-interface'', JStr ''error''),
                     (''@typescript-eslint/dot-notation'', JStr ''off''),
                     (''@typescript-eslint/explicit-function-return-type'', JArr [JStr ''error'', JObj [(''allowExpressions'', JBool True)]]),
                     (''@typescript-eslint/explicit-member-accessibility'', JArr [JStr ''error'', JObj [(''accessibility'', JStr ''no-public'')]]),
                     (''@typescript-eslint/lines-between-class-members'', JArr
                         [JStr ''error'',
                          JStr ''always'',
                          JObj [(''exceptAfterSingleLine'', JBool True)]]),
                     (''@typescript-eslint/no-inferrable-types'', JStr ''off''),
                     (''@typescript-eslint/typedef'', JArr
                         [JStr ''error'',
                          JObj
                            [(''propertyDeclaration'', JBool True),
                             (''variableDeclaration'', JBool True),
                             (''parameter'', JBool True),
                             (''memberVariableDeclaration'', JBool True),
                             (''arrowParameter'', JBool False)]]),
                     (''no-shadow'', JStr ''off''),
                     (''@typescript-eslint/no-shadow'', JStr ''error''),
                     (''@typescript-eslint/no-unused-expressions'', JStr ''error''),
                     (''@typescript-eslint/prefer-for-of'', JStr ''error''),
                     (''import/no-extraneous-dependencies'', JStr ''error''),
                     (''import/order'', JStr ''error''),
                     (''import/prefer-default-export'', JStr ''off''),
                     (''rxjs/finnish'', JArr
                         [JStr ''error'',
                          JObj
                            [(''functions'', JBool True),
                             (''methods'', JBool True),
                             (''names'', JObj
                                 [(''^(canActivate|canActivateChild|canDeactivate|canLoad|intercept|resolve|validate)$'', JBool False)]),
                             (''parameters'', JBool True),
                             (''properties'', JBool True),
                             (''strict'', JBool False),
                             (''types'', JObj [(''^EventEmitter$'', JBool False)]),
                             (''variables'', JBool True)]]),
                     (''rxjs/no-topromise'', JStr ''error''),
                     (''rxjs/suffix-subjects'', JArr
                         [JStr ''error'',
                          JObj
                            [(''parameters'', JBool True),
                             (''properties'', JBool True),
                             (''suffix'', JStr ''$''),
                             (''types'', JObj [(''^EventEmitter$'', JBool False)]),
                             (''variables'', JBool True)]]),
                     (''curly'', JStr ''error''),
                     (''default-case'', JStr ''error''),
                     (''eqeqeq'', JArr [JStr ''error'', JStr ''smart'']),
                     (''guard-for-in'', JStr ''error''),
                     (''no-caller'', JStr ''error''),
                     (''no-duplicate-imports'', JStr ''error''),
                     (''no-else-return'', JArr [JStr ''error'', JObj [(''allowElseIf'', JBool False)]]),
                     (''no-eval'', JStr ''error''),
                     (''no-new-wrappers'', JStr ''error''),
                     (''no-plusplus'', JStr ''error''),
                     (''no-restricted-imports'', JArr
                         [JStr ''error'',
                          JObj
                            [(''paths'', JArr
                                 [JObj
                                    [(''name'', JStr ''rxjs/Rx''),
                                     (''message'', JStr ''Please import directly from 'rxjs' instead'')]]),
                             (''patterns'', JArr
                                 [JObj
                                    [(''group'', JArr [JStr ''lodash/*'', JStr ''lodash'']),
                                     (''message'', JStr ''Please use lodash-es that uses es modules'')]])]]),
                     (''no-useless-constructor'', JStr ''error''),
                     (''radix'', JStr ''error''),
                     (''spaced-comment'', JArr
                         [JStr ''error'',
                          JStr ''always'',
                          JObj [(''markers'', JArr [JStr ''/''])]])])],
             JObj
               [(''files'', JArr [JStr ''*.html'']),
                (''extends'', JArr [JStr ''plugin:@angular-eslint/template/recommended'']),
                (''rules'', JObj [])]])]"

definition createProjectStylelintConfig :: json where
  "createProjectStylelintConfig =
     JObj
       [(''extends'', JArr
            [JStr ''stylelint-config-standard'',
             JStr ''stylelint-config-recommended-scss'',
             JStr ''stylelint-prettier/recommended'']),
        (''plugins'', JArr [JStr ''stylelint-scss'', JStr ''stylelint-order'', JStr ''stylelint-prettier'']),
        (''rules'', JObj
            [(''at-rule-no-vendor-prefix'', JBool True),
             (''color-named'', JStr ''never''),
             (''declaration-block-no-duplicate-properties'', JBool True),
             (''declaration-no-important'', JBool True),
             (''font-family-name-quotes'', JStr ''always-where-recommended''),
             (''function-url-quotes'', JStr ''always''),
             (''max-nesting-depth'', JNum 5),
             (''media-feature-name-no-vendor-prefix'', JBool True),
             (''property-no-vendor-prefix'', JBool True),
             (''selector-max-id'', JNum 0),
             (''selector-no-vendor-prefix'', JBool True),
             (''selector-pseudo-element-no-unknown'', JArr [JBool True, JObj [(''ignorePseudoElements'', JArr [JStr ''ng-deep''])]]),
             (''value-no-vendor-prefix'', JBool True),
             (''order/properties-alphabetical-order'', JBool True),
             (''scss/at-each-key-value-single-line'', JBool True),
             (''scss/at-else-closing-brace-newline-after'', JStr ''always-last-in-chain''),
             (''scss/at-else-empty-line-before'', JStr ''never''),
             (''scss/at-else-if-parentheses-space-before'', JStr ''always''),
             (''scss/at-extend-no-missing-placeholder'', JBool True),
             (''scss/at-function-parentheses-space-before'', JStr ''never''),
             (''scss/at-if-closing-brace-newline-after'', JStr ''always-last-in-chain''),
             (''scss/at-if-closing-brace-space-after'', JStr ''always-intermediate''),
             (''scss/at-if-no-null'', JBool True),
             (''scss/at-mixin-argumentless-call-parentheses'', JStr ''never''),
             (''scss/at-mixin-named-arguments'', JStr ''never''),
             (''scss/at-mixin-parentheses-space-before'', JStr ''never''),
             (''scss/comment-no-empty'', JBool True),
             (''scss/comment-no-loud'', JBool True),
             (''scss/declaration-nested-properties'', JStr ''never''),
             (''scss/dollar-variable-colon-space-after'', JStr ''always''),
             (''scss/dollar-variable-colon-space-before'', JStr ''never''),
             (''scss/dollar-variable-empty-line-after'', JArr
                 [JStr ''always'',
                  JObj
                    [(''except'', JArr
                         [JStr ''last-nested'',
                          JStr ''before-comment'',
                          JStr ''before-dollar-variable''])]]),
             (''scss/dollar-variable-empty-line-before'', JArr
                 [JStr ''always'',
                  JObj
                    [(''except'', JArr
                         [JStr ''first-nested'',
                          JStr ''after-comment'',
                          JStr ''after-dollar-variable''])]]),
             (''scss/dollar-variable-first-in-block'', JArr
                 [JBool True,
                  JObj
                    [(''except'', JArr [JStr ''function'']),
                     (''ignore'', JArr [JStr ''comments'', JStr ''imports''])]]),
             (''scss/dollar-variable-no-missing-interpolation'', JBool True),
             (''scss/double-slash-comment-whitespace-inside'', JStr ''always''),
             (''scss/function-quote-no-quoted-strings-inside'', JBool True),
             (''scss/function-unquote-no-unquoted-strings-inside'', JBool True),
             (''scss/no-duplicate-dollar-variables'', JArr
                 [JBool True,
                  JObj
                    [(''ignoreInside'', JArr [JStr ''nested-at-rule'']),
                     (''ignoreInsideAtRules'', JArr [JStr ''function''])]]),
             (''scss/no-duplicate-mixins'', JBool True),
             (''scss/operator-no-newline-after'', JBool True),
             (''scss/operator-no-newline-before'', JBool True),
             (''scss/operator-no-unspaced'', JBool True),
             (''scss/selector-nest-combinators'', JStr ''always''),
             (''scss/selector-no-union-class-name'', JBool True),
             (''prettier/prettier'', JBool True)])]"

definition createPrettierConfig :: json where
  "createPrettierConfig =
     JObj
       [(''singleQuote'', JBool True),
        (''tabWidth'', JNum 4),
        (''printWidth'', JNum 120),
        (''trailingComma'', JStr ''none''),
        (''arrowParens'', JStr ''avoid''),
        (''endOfLine'', JStr ''auto''),
        (''attributeGroups'', JArr
            [JStr ''$ANGULAR_ELEMENT_REF'',
             JStr ''$ANGULAR_STRUCTURAL_DIRECTIVE'',
             JStr ''$CLASS'',
             JStr ''$ID'',
             JStr ''$DEFAULT'',
             JStr ''$ANGULAR_ANIMATION'',
             JStr ''$ANGULAR_ANIMATION_INPUT'',
             JStr ''$ANGULAR_INPUT'',
             JStr ''$ANGULAR_TWO_WAY_BINDING'',
             JStr ''$ANGULAR_OUTPUT''])]"

section \<open>Rules\<close>

text \<open>
  \<^verbatim>\<open>
  export function updateESLintConfigForProject(projectName: string): Rule {
      return (tree: Tree) => {
          const angularJSON = readJsonInTree(tree, 'angular.json');
          const { prefix = 'app' } = angularJSON.projects[projectName];
          return updateJsonInTree('.eslintrc.json', () => createProjectESLintConfig(prefix));
      };
  }
  \<close>
  The rule returned by the rule is run on the same tree. The default \<^verbatim>\<open>'app'\<close> stands
  in for \<^verbatim>\<open>undefined\<close> only.
\<close>

definition updateESLintConfigForProject :: "env \<Rightarrow> string \<Rightarrow> rule" where
  "updateESLintConfigForProject E projectName w =
     raising w (readJsonInTree E (tree w) ''angular.json'') (\<lambda>angularJSON.
     raising w (get_member angularJSON ''projects'') (\<lambda>projects.
     raising w (get_project E projects projectName) (\<lambda>project.
     raising w (destructure project ''prefix'') (\<lambda>declared.
       let prefix = (case declared of None \<Rightarrow> JStr ''app'' | Some p \<Rightarrow> p)
       in updateJsonInTree E ''.eslintrc.json'' (\<lambda>json context. createProjectESLintConfig prefix) w))))"

text \<open>
  \<^verbatim>\<open>
  export function addStylelintConfigForProject(projectName: string): Rule {
      return (tree: Tree) => {
          const angularJSON = readJsonInTree(tree, 'angular.json');
          const { root: projectRoot } = angularJSON.projects[projectName];
          return updateJsonInTree(join(normalize(projectRoot), '.stylelintrc.json'), () =>
              createProjectStylelintConfig()
          );
      };
  }
  \<close>
\<close>

definition addStylelintConfigForProject :: "env \<Rightarrow> string \<Rightarrow> rule" where
  "addStylelintConfigForProject E projectName w =
     raising w (readJsonInTree E (tree w) ''angular.json'') (\<lambda>angularJSON.
     raising w (get_member angularJSON ''projects'') (\<lambda>projects.
     raising w (get_project E projects projectName) (\<lambda>project.
     raising w (destructure project ''root'') (\<lambda>projectRoot.
     raising w (path_normalize E projectRoot) (\<lambda>normalized.
       updateJsonInTree E (path_join E normalized ''.stylelintrc.json'')
         (\<lambda>json context. createProjectStylelintConfig) w)))))"

text \<open>
  \<^verbatim>\<open>
  export function addPrettierConfigForProject(projectName: string): Rule {
      return (tree: Tree) => {
          const angularJSON = readJsonInTree(tree, 'angular.json');
          console.log(projectName, angularJSON.projects);
          const { root: projectRoot } = angularJSON.projects[projectName];
          return updateJsonInTree(join(normalize(projectRoot), '.prettierrc.json'), () => createPrettierConfig());
      };
  }
  \<close>
\<close>

definition addPrettierConfigForProject :: "env \<Rightarrow> string \<Rightarrow> rule" where
  "addPrettierConfigForProject E projectName w =
     raising w (readJsonInTree E (tree w) ''angular.json'') (\<lambda>angularJSON.
     raising w (get_member angularJSON ''projects'') (\<lambda>projects.
       let w' = w\<lparr>ctx := (ctx w)\<lparr>logged := logged (ctx w) @ [ConsoleLog projectName projects]\<rparr>\<rparr>
       in
     raising w' (get_project E projects projectName) (\<lambda>project.
     raising w' (destructure project ''root'') (\<lambda>projectRoot.
     raising w' (path_normalize E projectRoot) (\<lambda>normalized.
       updateJsonInTree E (path_join E normalized ''.prettierrc.json'')
         (\<lambda>json context. createPrettierConfig) w')))))"

text \<open>
  The three package writers are one body with its own requested packages and its own
  message:
  \<^verbatim>\<open>
  export function addPrettierPackages(): Rule {
      return (host: Tree, context: SchematicContext) => {
          if (!host.exists('package.json')) {
              throw new Error('Could not find a `package.json` file at the root of your workspace');
          }
          const projectPackageJSON = (host.read('package.json') as Buffer).toString('utf-8');
          const json = JSON.parse(projectPackageJSON);
          addPackageJsonDeps(json, { devDependencies: { ... } });
          json.devDependencies = sortObjectByKeys(json.devDependencies);
          host.overwrite('package.json', JSON.stringify(json, null, 4));
          context.logger.info(`...`);
          return host;
      };
  }
  \<close>
  \<^verbatim>\<open>addPackageJsonDeps\<close> updates \<open>json\<close> in place; its return value is not used.
\<close>

definition sort_devDependencies :: "json \<Rightarrow> error + json" where
  "sort_devDependencies json =
     (case json of
        JObj ps \<Rightarrow>
          (case get_prop ps ''devDependencies'' of
             None \<Rightarrow> Inl TypeError
           | Some JNull \<Rightarrow> Inl TypeError
           | Some dd \<Rightarrow>
               Inr (JObj (set_prop ps ''devDependencies''
                            (JObj (sortObjectByKeys (own_properties dd))))))
      | JArr xs \<Rightarrow> Inl TypeError
      | _ \<Rightarrow> Inl TypeError)"

definition add_packages :: "env \<Rightarrow> (string \<times> string) list \<Rightarrow> notice \<Rightarrow> rule" where
  "add_packages E packages message w =
     (if \<not> tree_exists (tree w) ''package.json''
      then Inl (Error ''Could not find a `package.json` file at the root of your workspace'', w)
      else case tree_read (tree w) ''package.json'' of
             None \<Rightarrow> Inl (TypeError, w)
           | Some projectPackageJSON \<Rightarrow>
               (case JSON_parse E projectPackageJSON of
                  Inl m \<Rightarrow> Inl (SyntaxError m, w)
                | Inr json \<Rightarrow>
                    raising w (addPackageJsonDeps json
                                 \<lparr>dependencies = None, devDependencies = Some packages\<rparr>) (\<lambda>json.
                    raising w (sort_devDependencies json) (\<lambda>json.
                    raising w (tree_overwrite (tree w) ''package.json'' (JSON_stringify json 4)) (\<lambda>host.
                      Inr (w\<lparr>tree := host,
                              ctx := (ctx w)\<lparr>logged := logged (ctx w) @ [message]\<rparr>\<rparr>))))))"

definition addPrettierPackages :: "env \<Rightarrow> rule" where
  "addPrettierPackages E =
     add_packages E
       [(''prettier'', ''2.4.1''),
        (''prettier-plugin-organize-attributes'', ''^0.0.4'')]
       PrettierPackagesAdded"

definition addESLintPluginsPackages :: "env \<Rightarrow> rule" where
  "addESLintPluginsPackages E =
     add_packages E
       [(''eslint-plugin-import'', ''^2.24.2''),
        (''eslint-import-resolver-typescript'', ''^2.5.0''),
        (''eslint-plugin-rxjs'', ''^3.3.7''),
        (''eslint-config-prettier'', ''^8.3.0''),
        (''eslint-plugin-prettier'', ''^4.0.0'')]
       ESLintPluginsAdded"

definition addStylelintPackages :: "env \<Rightarrow> rule" where
  "addStylelintPackages E =
     add_packages E
       [(''stylelint'', ''^13.13.1''),
        (''stylelint-config-prettier'', ''^8.0.2''),
        (''stylelint-config-standard'', ''^22.0.0''),
        (''stylelint-config-recommended-scss'', ''4.3.0''),
        (''stylelint-order'', ''^4.1.0''),
        (''stylelint-prettier'', ''^1.2.0''),
        (''stylelint-scss'', ''^3.21.0'')]
       StylelintPackagesAdded"

text \<open>
  \<^verbatim>\<open>
  export function addPackageInstallTask(): Rule {
      return (host: Tree, context: SchematicContext) => {
          context.addTask(new NodePackageInstallTask());
          return host;
      };
  }
  \<close>
\<close>

definition addPackageInstallTask :: rule where
  "addPackageInstallTask w =
     Inr (w\<lparr>ctx := (ctx w)\<lparr>tasks := tasks (ctx w) @ [NodePackageInstallTask]\<rparr>\<rparr>)"

section \<open>Project resolution and orchestration\<close>

text \<open>
  \<^verbatim>\<open>
  export function getWorkspacePath(host: Tree) {
      const possibleFiles = ['/workspace.json', '/angular.json', '/.angular.json'];
      return possibleFiles.filter(path => host.exists(path))[0];
  }
  \<close>
  Element 0 of an empty array is \<^verbatim>\<open>undefined\<close>: \<open>None\<close>.
\<close>

definition possibleFiles :: "string list" where
  "possibleFiles = [''/workspace.json'', ''/angular.json'', ''/.angular.json'']"

definition getWorkspacePath :: "tree \<Rightarrow> string option" where
  "getWorkspacePath host =
     (case filter (\<lambda>path. tree_exists host path) possibleFiles of
        [] \<Rightarrow> None
      | path # rest \<Rightarrow> Some path)"

text \<open>
  \<^verbatim>\<open>
  export function determineTargetProjectName(tree: Tree, maybeProject?: string): string | null {
      if (maybeProject) {
          return maybeProject;
      }
      const workspaceJson = readJsonInTree(tree, getWorkspacePath(tree));
      const projects = Object.keys(workspaceJson.projects);
      if (projects.length === 1) {
          return projects[0];
      }
      return null;
  }
  \<close>
  \<open>maybeProject\<close> is \<open>None\<close> for \<^verbatim>\<open>undefined\<close>; the empty string is falsy too. With no
  workspace file the path is \<^verbatim>\<open>undefined\<close>, which the tree and the template literal
  both turn into the text \<^verbatim>\<open>undefined\<close>. The result \<open>None\<close> is \<^verbatim>\<open>null\<close>.
\<close>

definition truthy :: "string option \<Rightarrow> bool" where
  "truthy s = (case s of None \<Rightarrow> False | Some x \<Rightarrow> x \<noteq> [])"

definition determineTargetProjectName :: "env \<Rightarrow> tree \<Rightarrow> string option \<Rightarrow> error + string option" where
  "determineTargetProjectName E host maybeProject =
     (if truthy maybeProject then Inr maybeProject
      else case readJsonInTree E host
                  (case getWorkspacePath host of None \<Rightarrow> ''undefined'' | Some path \<Rightarrow> path) of
             Inl e \<Rightarrow> Inl e
           | Inr workspaceJson \<Rightarrow>
               (case get_member workspaceJson ''projects'' of
                  Inl e \<Rightarrow> Inl e
                | Inr declared \<Rightarrow>
                    (case Object_keys declared of
                       Inl e \<Rightarrow> Inl e
                     | Inr projects \<Rightarrow>
                         (case projects of
                            [project] \<Rightarrow> Inr (Some project)
                          | _ \<Rightarrow> Inr None))))"

text \<open>
  \<^verbatim>\<open>chain\<close> runs the rules one after the other, each on the tree the one before left;
  the first exception ends the run.
\<close>

fun chain :: "rule list \<Rightarrow> rule" where
  "chain [] w = Inr w"
| "chain (r # rs) w = (case r w of Inl thrown \<Rightarrow> Inl thrown | Inr w' \<Rightarrow> chain rs w')"

text \<open>
  \<^verbatim>\<open>
  export function configureLinters(schema: Schema): Rule {
      return (tree: Tree, _context: SchematicContext) => {
          const projectName = determineTargetProjectName(tree, schema.project);
          if (!projectName) {
              throw new Error(
                  '\n' +
                      `
  Error: You must specify a project to add ESLint to because you have multiple projects in your angular.json
  E.g. npx ng g angular-brulex-lint:configure-linters {{YOUR_PROJECT_NAME_GOES_HERE}}
          `.trim()
              );
          }
          return chain([
              externalSchematic('@angular-eslint/schematics', 'add-eslint-to-project', {
                  project: projectName
              }),
              addPrettierPackages(),
              addPrettierConfigForProject(projectName),
              addESLintPluginsPackages(),
              updateESLintConfigForProject(projectName),
              addStylelintPackages(),
              addStylelintConfigForProject(projectName),
              addPackageInstallTask()
          ]);
      };
  }
  \<close>
  In the source the two lines of the message start at the left margin.
\<close>

definition is_space :: "char \<Rightarrow> bool" where
  "is_space c = (c = CHR '' '' \<or> c = CHR 0x0A \<or> c = CHR 0x09 \<or> c = CHR 0x0D)"

definition trim :: "string \<Rightarrow> string" where
  "trim s = rev (dropWhile is_space (rev (dropWhile is_space s)))"

definition no_project_message :: string where
  "no_project_message =
     [CHR 0x0A] @
     trim ([CHR 0x0A]
       @ ''Error: You must specify a project to add ESLint to because you have multiple projects in your angular.json''
       @ [CHR 0x0A]
       @ ''E.g. npx ng g angular-brulex-lint:configure-linters {{YOUR_PROJECT_NAME_GOES_HERE}}''
       @ [CHR 0x0A]
       @ ''        '')"

definition configureLinters :: "env \<Rightarrow> string option \<Rightarrow> rule" where
  "configureLinters E project w =
     raising w (determineTargetProjectName E (tree w) project) (\<lambda>projectName.
       case projectName of
         None \<Rightarrow> Inl (Error no_project_message, w)
       | Some name \<Rightarrow>
           if name = [] then Inl (Error no_project_message, w)
           else chain
             [externalSchematic E ''@angular-eslint/schematics'' ''add-eslint-to-project'' name,
              addPrettierPackages E,
              addPrettierConfigForProject E name,
              addESLintPluginsPackages E,
              updateESLintConfigForProject E name,
              addStylelintPackages E,
              addStylelintConfigForProject E name,
              addPackageInstallTask] w)"

section \<open>Vocabulary of the statements\<close>

text \<open>
  \<open>section_props ps sec\<close>: the entries a manifest with the properties \<open>ps\<close> holds in a
  section, none when the section is absent. \<open>mapping_or_absent ps sec\<close>: the manifest has
  the declared type at that section.
\<close>

definition section_props :: "props \<Rightarrow> dep_section \<Rightarrow> props" where
  "section_props ps sec = (case get_prop ps (section_name sec) of Some (JObj s) \<Rightarrow> s | _ \<Rightarrow> [])"

definition mapping_or_absent :: "props \<Rightarrow> dep_section \<Rightarrow> bool" where
  "mapping_or_absent ps sec =
     (case get_prop ps (section_name sec) of None \<Rightarrow> True | Some (JObj s) \<Rightarrow> True | _ \<Rightarrow> False)"

text \<open>
  \<open>merged_entry s entries k\<close>: what a section with the entries \<open>s\<close> holds under the name
  \<open>k\<close> once the requested entries are assigned: the requested version (the last one,
  should a name be listed twice) where \<open>k\<close> is requested and can be assigned, the former
  entry otherwise. \<open>merged_section ps ps' opts sec\<close>: going from \<open>ps\<close> to \<open>ps'\<close>, a
  section that is not requested is as it was, and a requested section is a mapping with
  these entries.
\<close>

definition merged_entry :: "props \<Rightarrow> (string \<times> string) list \<Rightarrow> string \<Rightarrow> json option" where
  "merged_entry s entries k =
     (if settable s k
      then (case map_of (rev entries) k of Some v \<Rightarrow> Some (JStr v) | None \<Rightarrow> get_prop s k)
      else get_prop s k)"

definition merged_section :: "props \<Rightarrow> props \<Rightarrow> options \<Rightarrow> dep_section \<Rightarrow> bool" where
  "merged_section ps ps' opts sec =
     (case requested opts sec of
        None \<Rightarrow> get_prop ps' (section_name sec) = get_prop ps (section_name sec)
      | Some entries \<Rightarrow>
          (\<exists>s'. get_prop ps' (section_name sec) = Some (JObj s') \<and>
             (\<forall>k. get_prop s' k = merged_entry (section_props ps sec) entries k)))"

text \<open>
  The two errors of \<open>readJsonInTree\<close>, by the names the specification gives them:
  \<open>NotFound\<close> carries the path, \<open>ParseError\<close> the path and the parser's message.
\<close>

definition NotFound :: "string \<Rightarrow> error" where
  "NotFound path = Error (''Cannot find '' @ path)"

definition ParseError :: "string \<Rightarrow> string \<Rightarrow> error" where
  "ParseError path message = Error (''Cannot parse '' @ path @ '': '' @ message)"

text \<open>
  A place inside a document: the property names and array positions that lead to it.
  \<open>json_at\<close> reads the value at a place, \<open>json_put\<close> replaces it and leaves
  everything else as it is. The two places of the linter configuration that hold the
  naming prefix, and the prefix a project descriptor declares.
\<close>

datatype step = Key string | Index nat











section \<open>A sample workspace\<close>

text \<open>
  The workspace of the specification's scenarios: \<^verbatim>\<open>angular.json\<close> lists the project
  \<^verbatim>\<open>web\<close> with root \<^verbatim>\<open>apps/web\<close> and no prefix, \<^verbatim>\<open>package.json\<close> is \<^verbatim>\<open>{}\<close>; a
  second workspace lists two projects. \<open>sample_parse\<close> is \<^verbatim>\<open>JSON.parse\<close> on the
  texts of these files; the files hold no comments, and the external schematic changes
  nothing. \<open>directory_tree\<close> holds one file, in the directory
  \<^verbatim>\<open>/.prettierrc.json\<close>. \<open>prettier_manifest\<close> is the manifest that results from adding
  the formatter packages to \<^verbatim>\<open>{}\<close>.
\<close>

definition sample_workspace :: json where
  "sample_workspace = JObj [(''projects'', JObj [(''web'', JObj [(''root'', JStr ''apps/web'')])])]"

definition two_projects :: json where
  "two_projects =
     JObj [(''projects'', JObj
       [(''web'', JObj [(''root'', JStr ''apps/web''), (''prefix'', JStr ''web'')]),
        (''admin'', JObj [(''root'', JStr ''apps/admin'')])])]"

definition sample_parse :: "string \<Rightarrow> string + json" where
  "sample_parse text =
     (if text = ''{}'' then Inr (JObj [])
      else if text = ''null'' then Inr JNull
      else if text = JSON_stringify sample_workspace 0 then Inr sample_workspace
      else if text = JSON_stringify two_projects 0 then Inr two_projects
      else Inl ''Unexpected token'')"

definition sample_env :: env where
  "sample_env =
     \<lparr>JSON_parse = sample_parse,
      stripJsonComments = (\<lambda>text. text),
      path_normalize = (\<lambda>v. case v of Some (JStr s) \<Rightarrow> Inr s | _ \<Rightarrow> Inl TypeError),
      path_join = (\<lambda>a b. a @ ''/'' @ b),
      inherited = (\<lambda>v name. False),
      externalSchematic = (\<lambda>collection schematic project w. Inr w)\<rparr>"

definition start :: "tree \<Rightarrow> world" where
  "start files = \<lparr>tree = files, ctx = \<lparr>tasks = [], logged = []\<rparr>\<rparr>"

definition one_project_tree :: tree where
  "one_project_tree =
     [''/angular.json'' \<mapsto> JSON_stringify sample_workspace 0, ''/package.json'' \<mapsto> ''{}'']"

definition two_projects_tree :: tree where
  "two_projects_tree =
     [''/angular.json'' \<mapsto> JSON_stringify two_projects 0, ''/package.json'' \<mapsto> ''{}'']"


definition prettier_manifest :: json where
  "prettier_manifest =
     JObj [(''devDependencies'', JObj
       [(''prettier'', JStr ''2.4.1''),
        (''prettier-plugin-organize-attributes'', JStr ''^0.0.4'')])]"











section \<open>Properties of the key sorter\<close>

lemma keys_Nil [simp]: "keys [] = []"
  by (simp add: keys_def)

lemma keys_Cons [simp]: "keys (p # ps) = fst p # keys ps"
  by (simp add: keys_def)

lemma index_value_inj:
  "is_array_index a \<Longrightarrow> is_array_index b \<Longrightarrow> index_value a = index_value b \<Longrightarrow> a = b"
  by (metis is_array_index_def)

lemma enum_lt_trans: "enum_lt a b \<Longrightarrow> enum_lt b c \<Longrightarrow> enum_lt a c"
  by (auto simp: enum_lt_def split: if_splits)

lemma enum_lt_asym: "enum_lt a b \<Longrightarrow> \<not> enum_lt b a"
  by (auto simp: enum_lt_def split: if_splits)

lemma keys_replace_prop [simp]: "keys (replace_prop k v ps) = keys ps"
  by (induction k v ps rule: replace_prop.induct) auto

lemma set_keys_insert_prop [simp]: "set (keys (insert_prop k v ps)) = insert k (set (keys ps))"
  by (induction k v ps rule: insert_prop.induct) auto

lemma set_keys_set_prop: "set (keys (set_prop ps k v)) = insert k (set (keys ps))"
  by (auto simp: set_prop_def)

lemma map_of_replace_prop: "k \<in> set (keys ps) \<Longrightarrow> map_of (replace_prop k v ps) x = ((map_of ps)(k \<mapsto> v)) x"
  by (induction k v ps rule: replace_prop.induct) auto

lemma map_of_insert_prop: "k \<notin> set (keys ps) \<Longrightarrow> map_of (insert_prop k v ps) x = ((map_of ps)(k \<mapsto> v)) x"
  by (induction k v ps rule: insert_prop.induct) auto

lemma get_prop_set_prop: "get_prop (set_prop ps k v) x = (if x = k then Some v else get_prop ps x)"
  by (simp add: get_prop_def set_prop_def map_of_replace_prop map_of_insert_prop)

lemma sorted_insert_prop:
  "sorted_wrt enum_lt (keys ps) \<Longrightarrow> k \<notin> set (keys ps) \<Longrightarrow>
   (\<not> is_array_index k \<Longrightarrow> \<forall>a \<in> set (keys ps). \<not> is_array_index a \<longrightarrow> a < k) \<Longrightarrow>
   sorted_wrt enum_lt (keys (insert_prop k v ps))"
proof (induction ps)
  case Nil
  then show ?case by simp
next
  case (Cons p ps)
  obtain k' v' where p: "p = (k', v')" by (cases p)
  show ?case
  proof (cases "precedes k k'")
    case True
    then have "enum_lt k k'" by (auto simp: precedes_def enum_lt_def split: if_splits)
    moreover have "\<forall>x \<in> set (keys ps). enum_lt k' x" using Cons.prems(1) by (simp add: p)
    ultimately have "\<forall>x \<in> set (keys (p # ps)). enum_lt k x"
      using enum_lt_trans by (auto simp: p)
    with Cons.prems(1) True show ?thesis by (simp add: p)
  next
    case False
    have "k \<noteq> k'" using Cons.prems(2) by (simp add: p)
    have lt: "enum_lt k' k"
    proof (cases "is_array_index k")
      case True
      with False have "is_array_index k'" "index_value k' \<le> index_value k"
        by (auto simp: precedes_def split: if_splits)
      moreover have "index_value k \<noteq> index_value k'"
        using index_value_inj True \<open>is_array_index k'\<close> \<open>k \<noteq> k'\<close> by blast
      ultimately show ?thesis by (simp add: enum_lt_def)
    next
      case False
      with Cons.prems(3) show ?thesis by (auto simp: enum_lt_def p)
    qed
    have "sorted_wrt enum_lt (keys (insert_prop k v ps))"
      using Cons by (auto simp: p)
    moreover have "\<forall>x \<in> set (keys (insert_prop k v ps)). enum_lt k' x"
      using lt Cons.prems(1) by (auto simp: p)
    ultimately show ?thesis using False by (simp add: p)
  qed
qed

lemma sorted_unique:
  "sorted_wrt enum_lt xs \<Longrightarrow> sorted_wrt enum_lt ys \<Longrightarrow> set xs = set ys \<Longrightarrow> xs = ys"
proof (induction xs arbitrary: ys)
  case Nil
  then show ?case by simp
next
  case (Cons x xs)
  then obtain y ys' where ys: "ys = y # ys'" by (cases ys) auto
  have "x = y"
  proof (rule ccontr)
    assume "x \<noteq> y"
    then have "x \<in> set ys'" "y \<in> set xs" using Cons.prems(3) ys by auto
    then have "enum_lt y x" "enum_lt x y" using Cons.prems(1,2) ys by auto
    then show False using enum_lt_asym by blast
  qed
  moreover have "x \<notin> set xs" "y \<notin> set ys'" using Cons.prems(1,2) ys enum_lt_asym by auto
  ultimately have "set xs = set ys'" using Cons.prems(3) ys by auto
  then show ?case using Cons ys \<open>x = y\<close> by auto
qed


lemma get_prop_None_iff: "get_prop ps k = None \<longleftrightarrow> k \<notin> set (keys ps)"
  by (simp add: get_prop_def keys_def map_of_eq_None_iff)

lemma get_prop_spread_with:
  "get_prop (spread_with obj result key) x =
     (if x = key \<and> key \<in> set (keys obj) then get_prop obj x else get_prop result x)"
proof (cases "get_prop obj key")
  case None
  then have "key \<notin> set (keys obj)" by (simp add: get_prop_None_iff)
  with None show ?thesis by (simp add: spread_with_def)
next
  case (Some v)
  then have "key \<in> set (keys obj)" using get_prop_None_iff [of obj key] by auto
  with Some show ?thesis by (simp add: spread_with_def get_prop_set_prop)
qed

lemma get_prop_foldl:
  "get_prop (foldl (spread_with obj) acc ks) x =
     (if x \<in> set ks \<and> x \<in> set (keys obj) then get_prop obj x else get_prop acc x)"
  by (induction ks arbitrary: acc) (auto simp: get_prop_spread_with)

lemma sorted_spread_with:
  assumes "sorted_wrt enum_lt (keys acc)"
    and "\<forall>a \<in> set (keys acc). \<not> is_array_index a \<longrightarrow> a \<le> k"
  shows "sorted_wrt enum_lt (keys (spread_with obj acc k))"
proof (cases "get_prop obj k")
  case None
  with assms show ?thesis by (simp add: spread_with_def)
next
  case (Some v)
  show ?thesis
  proof (cases "k \<in> set (keys acc)")
    case True
    with Some assms show ?thesis by (simp add: spread_with_def set_prop_def)
  next
    case False
    then have "\<forall>a \<in> set (keys acc). \<not> is_array_index a \<longrightarrow> a < k"
      using assms(2) by (auto simp: order_less_le)
    with False assms(1) have "sorted_wrt enum_lt (keys (insert_prop k v acc))"
      by (intro sorted_insert_prop) auto
    with Some False show ?thesis by (simp add: spread_with_def set_prop_def)
  qed
qed

lemma set_keys_spread_with:
  "set (keys (spread_with obj acc k)) \<subseteq> insert k (set (keys acc))"
  by (cases "get_prop obj k") (auto simp: spread_with_def set_keys_set_prop)

lemma sorted_foldl:
  "sorted_wrt enum_lt (keys acc) \<Longrightarrow> sorted ks \<Longrightarrow>
   (\<forall>a \<in> set (keys acc). \<forall>k \<in> set ks. \<not> is_array_index a \<longrightarrow> a \<le> k) \<Longrightarrow>
   sorted_wrt enum_lt (keys (foldl (spread_with obj) acc ks))"
proof (induction ks arbitrary: acc)
  case Nil
  then show ?case by simp
next
  case (Cons k ks)
  have 1: "sorted_wrt enum_lt (keys (spread_with obj acc k))"
    using Cons.prems by (intro sorted_spread_with) auto
  have 2: "\<forall>a \<in> set (keys (spread_with obj acc k)). \<forall>k' \<in> set ks. \<not> is_array_index a \<longrightarrow> a \<le> k'"
    using Cons.prems set_keys_spread_with [of obj acc k] by auto
  from Cons.IH [OF 1 _ 2] Cons.prems(2) show ?case by simp
qed

lemma sorted_sortObjectByKeys: "sorted_wrt enum_lt (keys (sortObjectByKeys m))"
  unfolding sortObjectByKeys_def by (rule sorted_foldl) auto

lemma get_prop_sortObjectByKeys: "get_prop (sortObjectByKeys m) k = get_prop m k"
proof (cases "k \<in> set (keys m)")
  case True
  then show ?thesis by (simp add: sortObjectByKeys_def get_prop_foldl)
next
  case False
  then have "get_prop m k = None" by (simp add: get_prop_None_iff)
  moreover have "get_prop [] k = None" by (simp add: get_prop_def)
  ultimately show ?thesis using False by (simp add: sortObjectByKeys_def get_prop_foldl)
qed

lemma set_keys_sortObjectByKeys: "set (keys (sortObjectByKeys m)) = set (keys m)"
proof -
  have "k \<in> set (keys (sortObjectByKeys m)) \<longleftrightarrow> k \<in> set (keys m)" for k
    using get_prop_None_iff [of "sortObjectByKeys m" k] get_prop_None_iff [of m k]
    by (simp add: get_prop_sortObjectByKeys)
  then show ?thesis by blast
qed

lemma enum_lt_irrefl: "\<not> enum_lt a a"
  using enum_lt_asym by blast

lemma sorted_distinct: "sorted_wrt enum_lt ks \<Longrightarrow> distinct ks"
  by (induction ks) (auto simp: enum_lt_irrefl)

lemma props_eqI:
  "keys a = keys b \<Longrightarrow> distinct (keys a) \<Longrightarrow> (\<And>k. get_prop a k = get_prop b k) \<Longrightarrow> a = b"
proof (induction a arbitrary: b)
  case Nil
  then show ?case by (simp add: keys_def)
next
  case (Cons p a)
  then obtain q b' where b: "b = q # b'" by (cases b) (auto simp: keys_def)
  obtain k v where p: "p = (k, v)" by (cases p)
  obtain k' v' where q: "q = (k', v')" by (cases q)
  have kk: "k = k'" "keys a = keys b'" using Cons.prems(1) by (auto simp: b p q)
  have "get_prop (p # a) k = get_prop b k" using Cons.prems(3) .
  then have vv: "v = v'" by (simp add: get_prop_def b p q kk)
  have "get_prop a x = get_prop b' x" for x
  proof (cases "x = k")
    case True
    then have "x \<notin> set (keys a)" "x \<notin> set (keys b')" using Cons.prems(2) kk by (auto simp: p)
    then show ?thesis using get_prop_None_iff [of a x] get_prop_None_iff [of b' x] by simp
  next
    case False
    with Cons.prems(3) [of x] show ?thesis by (simp add: get_prop_def b p q kk)
  qed
  with Cons.IH [of b'] kk Cons.prems(2) have "a = b'" by (simp add: p)
  with kk vv show ?case by (simp add: b p q)
qed

lemma sortObjectByKeys_idem: "sortObjectByKeys (sortObjectByKeys m) = sortObjectByKeys m"
proof (rule props_eqI)
  show "keys (sortObjectByKeys (sortObjectByKeys m)) = keys (sortObjectByKeys m)"
    by (rule sorted_unique) (simp_all add: sorted_sortObjectByKeys set_keys_sortObjectByKeys)
  show "distinct (keys (sortObjectByKeys (sortObjectByKeys m)))"
    by (rule sorted_distinct) (rule sorted_sortObjectByKeys)
  show "get_prop (sortObjectByKeys (sortObjectByKeys m)) k = get_prop (sortObjectByKeys m) k" for k
    by (simp add: get_prop_sortObjectByKeys)
qed

lemma sorted_names:
  "sorted_wrt enum_lt ks \<Longrightarrow> \<forall>k \<in> set ks. \<not> is_array_index k \<Longrightarrow> sorted_wrt (<) ks"
  by (induction ks) (auto simp: enum_lt_def)

lemma reduce_fold:
  "obj < length h \<Longrightarrow> r < length h \<Longrightarrow>
   \<exists>ext r'. foldl (reduce_step obj) (h, r) ks = (h @ ext, r') \<and> r \<le> r' \<and> r' < length (h @ ext) \<and>
     (h @ ext) ! r' = foldl (spread_with (h ! obj)) (h ! r) ks"
proof (induction ks arbitrary: h r)
  case Nil
  then show ?case by simp
next
  case (Cons k ks)
  let ?h = "h @ [spread_with (h ! obj) (h ! r) k]"
  have step: "reduce_step obj (h, r) k = (?h, length h)"
    by (simp add: reduce_step_def alloc_def)
  have "obj < length ?h" "length h < length ?h" using Cons.prems by simp_all
  from Cons.IH [OF this] obtain ext r' where
    f: "foldl (reduce_step obj) (?h, length h) ks = (?h @ ext, r')" and
    r: "length h \<le> r'" "r' < length (?h @ ext)" and
    v: "(?h @ ext) ! r' = foldl (spread_with (?h ! obj)) (?h ! length h) ks"
    by blast
  have o: "?h ! obj = h ! obj" using Cons.prems by (simp add: nth_append)
  show ?case
    apply (rule exI [of _ "spread_with (h ! obj) (h ! r) k # ext"])
    apply (rule exI [of _ r'])
    using f r v o Cons.prems step by simp
qed

lemma sortObjectByKeys_heap_fresh:
  assumes "obj < length h"
  shows "\<exists>ext r. sortObjectByKeys_heap h obj = (h @ ext, r) \<and> length h \<le> r \<and> r < length (h @ ext) \<and>
     (h @ ext) ! r = sortObjectByKeys (h ! obj)"
proof -
  let ?h = "h @ [[]]"
  have "obj < length ?h" "length h < length ?h" using assms by simp_all
  from reduce_fold [OF this, of "sort (keys (h ! obj))"] obtain ext r' where
    f: "foldl (reduce_step obj) (?h, length h) (sort (keys (h ! obj))) = (?h @ ext, r')" and
    r: "length h \<le> r'" "r' < length (?h @ ext)" and
    v: "(?h @ ext) ! r' = foldl (spread_with (?h ! obj)) (?h ! length h) (sort (keys (h ! obj)))"
    by blast
  have o: "?h ! obj = h ! obj" using assms by (simp add: nth_append)
  show ?thesis
    apply (rule exI [of _ "[] # ext"])
    apply (rule exI [of _ r'])
    using f r v o by (simp add: sortObjectByKeys_heap_def alloc_def sortObjectByKeys_def)
qed

text \<open>
  C4 (as the code has it). For every mapping \<open>m\<close>: sorting twice gives what sorting once
  gives; the result has the keys of \<open>m\<close> and the value of \<open>m\<close> under each key; its keys are
  enumerated with the array-index keys first, by ascending numeric value, and the other
  keys after them in ascending lexicographic order, so that the keys are in ascending
  lexicographic order whenever no key of \<open>m\<close> is an array index; the empty mapping gives
  the empty mapping; and on a store of objects the result is a newly allocated object
  while every object that existed before, \<open>m\<close> among them, is left as it was.
\<close>

theorem sortObjectByKeys_key_sorter:
  "sortObjectByKeys (sortObjectByKeys m) = sortObjectByKeys m
   \<and> set (keys (sortObjectByKeys m)) = set (keys m)
   \<and> (\<forall>k. get_prop (sortObjectByKeys m) k = get_prop m k)
   \<and> sorted_wrt enum_lt (keys (sortObjectByKeys m))
   \<and> (list_all (\<lambda>k. \<not> is_array_index k) (keys m) \<longrightarrow> sorted_wrt (<) (keys (sortObjectByKeys m)))
   \<and> sortObjectByKeys [] = []
   \<and> (obj < length h \<longrightarrow>
        (\<exists>ext r. sortObjectByKeys_heap h obj = (h @ ext, r) \<and> length h \<le> r \<and> r < length (h @ ext)
           \<and> (h @ ext) ! r = sortObjectByKeys (h ! obj)))"
proof -
  have names: "sorted_wrt (<) (keys (sortObjectByKeys m))"
    if "list_all (\<lambda>k. \<not> is_array_index k) (keys m)"
  proof (rule sorted_names [OF sorted_sortObjectByKeys])
    show "\<forall>k \<in> set (keys (sortObjectByKeys m)). \<not> is_array_index k"
      using that by (simp add: set_keys_sortObjectByKeys list_all_iff)
  qed
  have empty: "sortObjectByKeys [] = []"
    by (simp add: sortObjectByKeys_def)
  show ?thesis
    using sortObjectByKeys_idem [of m] set_keys_sortObjectByKeys [of m]
      get_prop_sortObjectByKeys [of m] sorted_sortObjectByKeys [of m] names empty
      sortObjectByKeys_heap_fresh [of obj h]
    by blast
qed

text \<open>The theorem at the mapping \<^verbatim>\<open>{b: 1, a: 2}\<close>, stored at address 0.\<close>

theorem sortObjectByKeys_key_sorter_witness:
  "list_all (\<lambda>k. \<not> is_array_index k) (keys [(''b'', JNum 1), (''a'', JNum 2)])
   \<and> sortObjectByKeys [(''b'', JNum 1), (''a'', JNum 2)] = [(''a'', JNum 2), (''b'', JNum 1)]
   \<and> sorted_wrt (<) (keys (sortObjectByKeys [(''b'', JNum 1), (''a'', JNum 2)]))
   \<and> (0 :: nat) < length [[(''b'', JNum 1), (''a'', JNum 2)]]
   \<and> (\<exists>ext r. sortObjectByKeys_heap [[(''b'', JNum 1), (''a'', JNum 2)]] 0
                 = ([[(''b'', JNum 1), (''a'', JNum 2)]] @ ext, r)
        \<and> ([[(''b'', JNum 1), (''a'', JNum 2)]] @ ext) ! r = [(''a'', JNum 2), (''b'', JNum 1)])"
proof -
  have idx: "list_all (\<lambda>k. \<not> is_array_index k) (keys [(''b'', JNum 1), (''a'', JNum 2)])"
    by (simp add: is_array_index_def is_digit_def)
  have val: "sortObjectByKeys [(''b'', JNum 1), (''a'', JNum 2)] = [(''a'', JNum 2), (''b'', JNum 1)]"
    by (simp add: sortObjectByKeys_def spread_with_def get_prop_def set_prop_def precedes_def
        is_array_index_def is_digit_def)
  show ?thesis
    using sortObjectByKeys_key_sorter [of "[(''b'', JNum 1), (''a'', JNum 2)]" 0
        "[[(''b'', JNum 1), (''a'', JNum 2)]]"] idx val
    by auto
qed

text \<open>
  C4 as stated fails on \<^verbatim>\<open>{"9": "b", "10": "a"}\<close>: \<^verbatim>\<open>sort()\<close> puts \<^verbatim>\<open>"10"\<close> before
  \<^verbatim>\<open>"9"\<close>, and the object built from them enumerates \<^verbatim>\<open>"9"\<close> before \<^verbatim>\<open>"10"\<close>.
\<close>

theorem sortObjectByKeys_lexicographic_counterexample:
  "\<not> sorted (keys (sortObjectByKeys [(''9'', JStr ''b''), (''10'', JStr ''a'')]))"
  by (simp add: sortObjectByKeys_def spread_with_def get_prop_def set_prop_def precedes_def
      is_array_index_def is_digit_def index_value_def dec.simps digit_char_def)

section \<open>Properties of the dependency merger\<close>

lemma settable_assign_version:
  "settable (assign_version s k v) x = settable s x"
  by (auto simp: assign_version_def settable_def set_keys_set_prop)

lemma merged_entry_Cons:
  "merged_entry (assign_version s k v) entries x = merged_entry s ((k, v) # entries) x"
proof (cases "settable s k")
  case True
  then have "get_prop (assign_version s k v) x = (if x = k then Some (JStr v) else get_prop s x)"
    by (simp add: assign_version_def get_prop_set_prop)
  then show ?thesis
    using True
    by (cases "map_of (rev entries) x")
       (auto simp: merged_entry_def settable_assign_version map_add_def)
next
  case False
  then have "assign_version s k v = s" by (simp add: assign_version_def)
  then show ?thesis
    using False
    by (cases "x = k"; cases "map_of (rev entries) x")
       (auto simp: merged_entry_def map_add_def)
qed

lemma set_entries_obj:
  "\<exists>s'. set_entries (JObj s) entries = Inr (JObj s') \<and>
     (\<forall>k. get_prop s' k = merged_entry s entries k)"
proof (induction entries arbitrary: s)
  case Nil
  then show ?case by (simp add: merged_entry_def)
next
  case (Cons e entries)
  obtain k v where e: "e = (k, v)" by (cases e)
  from Cons [of "assign_version s k v"] obtain s' where
    1: "set_entries (JObj (assign_version s k v)) entries = Inr (JObj s')" and
    2: "\<forall>x. get_prop s' x = merged_entry (assign_version s k v) entries x"
    by blast
  from 2 have "\<forall>x. get_prop s' x = merged_entry s (e # entries) x"
    by (simp add: e merged_entry_Cons)
  with 1 show ?case by (simp add: e)
qed

lemma map_of_rev_distinct:
  "distinct (map fst entries) \<Longrightarrow> map_of (rev entries) = map_of entries"
  by (rule map_of_inject_set [THEN iffD2]) (simp_all add: rev_map [symmetric])

lemma addDeps_skip: "requested opts sec = None \<Longrightarrow> addDeps opts sec j = Inr j"
  by (simp add: addDeps_def)

lemma addDeps_obj:
  assumes r: "requested opts sec = Some entries" and m: "mapping_or_absent ps sec"
  shows "\<exists>ps' s'. addDeps opts sec (JObj ps) = Inr (JObj ps') \<and>
      (\<forall>k. get_prop ps' k = (if k = section_name sec then Some (JObj s') else get_prop ps k)) \<and>
      (\<forall>k. get_prop s' k = merged_entry (section_props ps sec) entries k)"
proof -
  let ?n = "section_name sec"
  let ?ps = "if ?n \<in> set (keys ps) then ps else set_prop ps ?n (JObj [])"
  have t: "get_prop ?ps ?n = Some (JObj (section_props ps sec))"
  proof (cases "get_prop ps ?n")
    case None
    then have "?n \<notin> set (keys ps)" by (simp add: get_prop_None_iff)
    with None show ?thesis by (simp add: get_prop_set_prop section_props_def)
  next
    case (Some x)
    then have "?n \<in> set (keys ps)" using get_prop_None_iff [of ps ?n] by simp
    moreover from Some m obtain s where "x = JObj s"
      by (cases x) (simp_all add: mapping_or_absent_def)
    ultimately show ?thesis using Some by (simp add: section_props_def)
  qed
  have o: "get_prop ?ps k = get_prop ps k" if "k \<noteq> ?n" for k
    using that by (simp add: get_prop_set_prop)
  from set_entries_obj [of "section_props ps sec" entries] obtain s' where
    1: "set_entries (JObj (section_props ps sec)) entries = Inr (JObj s')" and
    2: "\<forall>k. get_prop s' k = merged_entry (section_props ps sec) entries k"
    by blast
  have "addDeps opts sec (JObj ps) = Inr (JObj (set_prop ?ps ?n (JObj s')))"
    using r t 1 by (simp add: addDeps_def Let_def)
  moreover have "get_prop (set_prop ?ps ?n (JObj s')) k =
      (if k = ?n then Some (JObj s') else get_prop ps k)" for k
    using o [of k] by (simp add: get_prop_set_prop)
  ultimately show ?thesis using 2 by blast
qed

lemma addDeps_step:
  assumes "requested opts sec \<noteq> None \<Longrightarrow> mapping_or_absent ps sec"
  shows "\<exists>ps'. addDeps opts sec (JObj ps) = Inr (JObj ps') \<and>
      (\<forall>k. k \<noteq> section_name sec \<longrightarrow> get_prop ps' k = get_prop ps k) \<and>
      merged_section ps ps' opts sec"
proof (cases "requested opts sec")
  case None
  then show ?thesis by (simp add: addDeps_skip merged_section_def)
next
  case (Some entries)
  with assms have "mapping_or_absent ps sec" by simp
  from addDeps_obj [OF Some this] obtain ps' s' where
    "addDeps opts sec (JObj ps) = Inr (JObj ps')"
    "\<forall>k. get_prop ps' k = (if k = section_name sec then Some (JObj s') else get_prop ps k)"
    "\<forall>k. get_prop s' k = merged_entry (section_props ps sec) entries k"
    by blast
  then show ?thesis using Some by (auto simp: merged_section_def)
qed

lemma merged_section_cong:
  assumes "get_prop ps1 (section_name sec) = get_prop ps (section_name sec)"
    and "get_prop ps2 (section_name sec) = get_prop ps' (section_name sec)"
  shows "merged_section ps1 ps2 opts sec = merged_section ps ps' opts sec"
proof -
  have e: "section_props ps1 sec = section_props ps sec"
    using assms(1) by (simp add: section_props_def)
  show ?thesis
    unfolding merged_section_def e assms by (rule refl)
qed

lemma addPackageJsonDeps_obj:
  assumes "\<And>sec. requested opts sec \<noteq> None \<Longrightarrow> mapping_or_absent ps sec"
  shows "\<exists>ps'. addPackageJsonDeps (JObj ps) opts = Inr (JObj ps') \<and>
      (\<forall>k. k \<noteq> ''dependencies'' \<and> k \<noteq> ''devDependencies'' \<longrightarrow> get_prop ps' k = get_prop ps k) \<and>
      (\<forall>sec. merged_section ps ps' opts sec)"
proof -
  from addDeps_step [of opts Dependencies ps] assms obtain ps1 where
    a1: "addDeps opts Dependencies (JObj ps) = Inr (JObj ps1)" and
    o1: "\<forall>k. k \<noteq> ''dependencies'' \<longrightarrow> get_prop ps1 k = get_prop ps k" and
    m1: "merged_section ps ps1 opts Dependencies"
    by auto
  have "mapping_or_absent ps1 DevDependencies" if "requested opts DevDependencies \<noteq> None"
    using assms [OF that] o1 by (simp add: mapping_or_absent_def)
  from addDeps_step [of opts DevDependencies ps1] this obtain ps2 where
    a2: "addDeps opts DevDependencies (JObj ps1) = Inr (JObj ps2)" and
    o2: "\<forall>k. k \<noteq> ''devDependencies'' \<longrightarrow> get_prop ps2 k = get_prop ps1 k" and
    m2: "merged_section ps1 ps2 opts DevDependencies"
    by auto
  have r: "addPackageJsonDeps (JObj ps) opts = Inr (JObj ps2)"
    using a1 a2 by (simp add: addPackageJsonDeps_def typeof_object_def)
  have d: "merged_section ps ps2 opts Dependencies"
    using m1 o2 merged_section_cong [where ?ps1.0 = ps and ps = ps and ?ps2.0 = ps2 and ps' = ps1
        and sec = Dependencies and opts = opts] by simp
  have v: "merged_section ps ps2 opts DevDependencies"
    using m2 o1 merged_section_cong [where ?ps1.0 = ps and ps = ps1 and ?ps2.0 = ps2 and ps' = ps2
        and sec = DevDependencies and opts = opts] by simp
  have "merged_section ps ps2 opts sec" for sec
    using d v by (cases sec) simp_all
  with r o1 o2 show ?thesis by auto
qed

text \<open>
  C1 (as the code has it). For every manifest (an object \<open>ps\<close> whose sections, where
  present and requested, are mappings) and every requested dependency set \<open>r\<close>, the merge
  returns a manifest in which: a section that \<open>r\<close> does not have is untouched; a section
  that \<open>r\<close> has is a mapping that holds every entry of \<open>r\<close> with \<open>r\<close>'s value, except
  under the name \<^verbatim>\<open>__proto__\<close> where the section did not have it, and that holds under
  every name that \<open>r\<close> does not list, and under such a \<^verbatim>\<open>__proto__\<close>, what the
  manifest had there (nothing when the section was absent: the section starts as an empty
  mapping); every other top-level property is untouched.
\<close>

theorem addPackageJsonDeps_merge:
  assumes "\<And>sec. requested opts sec \<noteq> None \<Longrightarrow> mapping_or_absent ps sec"
  shows "\<exists>ps'. addPackageJsonDeps (JObj ps) opts = Inr (JObj ps') \<and>
      (\<forall>sec. requested opts sec = None \<longrightarrow>
               get_prop ps' (section_name sec) = get_prop ps (section_name sec)) \<and>
      (\<forall>sec entries. requested opts sec = Some entries \<longrightarrow>
         (\<exists>s'. get_prop ps' (section_name sec) = Some (JObj s') \<and>
            (\<forall>k v. distinct (map fst entries) \<and> (k, v) \<in> set entries
                     \<and> settable (section_props ps sec) k \<longrightarrow>
                     get_prop s' k = Some (JStr v)) \<and>
            (\<forall>k. k \<notin> fst ` set entries \<or> \<not> settable (section_props ps sec) k \<longrightarrow>
                     get_prop s' k = get_prop (section_props ps sec) k))) \<and>
      (\<forall>k. k \<noteq> ''dependencies'' \<and> k \<noteq> ''devDependencies'' \<longrightarrow> get_prop ps' k = get_prop ps k)"
proof -
  from addPackageJsonDeps_obj [OF assms] obtain ps' where
    r: "addPackageJsonDeps (JObj ps) opts = Inr (JObj ps')" and
    o: "\<forall>k. k \<noteq> ''dependencies'' \<and> k \<noteq> ''devDependencies'' \<longrightarrow> get_prop ps' k = get_prop ps k" and
    m: "\<forall>sec. merged_section ps ps' opts sec"
    by blast
  have absent: "get_prop ps' (section_name sec) = get_prop ps (section_name sec)"
    if "requested opts sec = None" for sec
    using m [rule_format, of sec] that by (simp add: merged_section_def)
  have present: "\<exists>s'. get_prop ps' (section_name sec) = Some (JObj s') \<and>
            (\<forall>k v. distinct (map fst entries) \<and> (k, v) \<in> set entries
                     \<and> settable (section_props ps sec) k \<longrightarrow>
                     get_prop s' k = Some (JStr v)) \<and>
            (\<forall>k. k \<notin> fst ` set entries \<or> \<not> settable (section_props ps sec) k \<longrightarrow>
                     get_prop s' k = get_prop (section_props ps sec) k)"
    if req: "requested opts sec = Some entries" for sec entries
  proof -
    from m [rule_format, of sec] req obtain s' where
      s: "get_prop ps' (section_name sec) = Some (JObj s')" and
      g: "\<forall>k. get_prop s' k = merged_entry (section_props ps sec) entries k"
      by (auto simp: merged_section_def)
    have "get_prop s' k = Some (JStr v)"
      if "distinct (map fst entries)" "(k, v) \<in> set entries" "settable (section_props ps sec) k"
      for k v
      using g that by (simp add: merged_entry_def map_of_rev_distinct)
    moreover have "get_prop s' k = get_prop (section_props ps sec) k"
      if "k \<notin> fst ` set entries \<or> \<not> settable (section_props ps sec) k" for k
    proof (cases "settable (section_props ps sec) k")
      case True
      with that have "map_of (rev entries) k = None" by (simp add: map_of_eq_None_iff)
      with g True show ?thesis by (simp add: merged_entry_def)
    next
      case False
      with g show ?thesis by (simp add: merged_entry_def)
    qed
    ultimately show ?thesis using s by blast
  qed
  from r absent present o show ?thesis by blast
qed

text \<open>
  The scenario of the specification: \<^verbatim>\<open>devDependencies: {"a": "1.0.0"}\<close>, requesting
  \<^verbatim>\<open>devDependencies: {"b": "2.0.0"}\<close>.
\<close>

theorem addPackageJsonDeps_merge_witness:
  "mapping_or_absent [(''name'', JStr ''demo''), (''devDependencies'', JObj [(''a'', JStr ''1.0.0'')])]
     DevDependencies
   \<and> distinct (map fst [(''b'', ''2.0.0'')])
   \<and> settable [(''a'', JStr ''1.0.0'')] ''b''
   \<and> addPackageJsonDeps
       (JObj [(''name'', JStr ''demo''), (''devDependencies'', JObj [(''a'', JStr ''1.0.0'')])])
       \<lparr>dependencies = None, devDependencies = Some [(''b'', ''2.0.0'')]\<rparr>
     = Inr (JObj [(''name'', JStr ''demo''),
                  (''devDependencies'', JObj [(''a'', JStr ''1.0.0''), (''b'', JStr ''2.0.0'')])])
   \<and> (\<exists>ps' s'. addPackageJsonDeps
          (JObj [(''name'', JStr ''demo''), (''devDependencies'', JObj [(''a'', JStr ''1.0.0'')])])
          \<lparr>dependencies = None, devDependencies = Some [(''b'', ''2.0.0'')]\<rparr> = Inr (JObj ps')
        \<and> get_prop ps' ''dependencies'' = None
        \<and> get_prop ps' ''devDependencies'' = Some (JObj s')
        \<and> get_prop s' ''b'' = Some (JStr ''2.0.0'')
        \<and> get_prop s' ''a'' = Some (JStr ''1.0.0'')
        \<and> get_prop ps' ''name'' = Some (JStr ''demo''))"
proof -
  let ?ps = "[(''name'', JStr ''demo''), (''devDependencies'', JObj [(''a'', JStr ''1.0.0'')])]"
  let ?opts = "\<lparr>dependencies = None, devDependencies = Some [(''b'', ''2.0.0'')]\<rparr>"
  have m: "mapping_or_absent ?ps DevDependencies"
    by (simp add: mapping_or_absent_def get_prop_def)
  have h: "requested ?opts sec \<noteq> None \<Longrightarrow> mapping_or_absent ?ps sec" for sec
    using m by (cases sec) simp_all
  have sp: "section_props ?ps DevDependencies = [(''a'', JStr ''1.0.0'')]"
    by (simp add: section_props_def get_prop_def)
  have st: "settable [(''a'', JStr ''1.0.0'')] ''b''"
    by (simp add: settable_def)
  have e: "addPackageJsonDeps (JObj ?ps) ?opts
     = Inr (JObj [(''name'', JStr ''demo''),
                  (''devDependencies'', JObj [(''a'', JStr ''1.0.0''), (''b'', JStr ''2.0.0'')])])"
    by (simp add: addPackageJsonDeps_def typeof_object_def addDeps_def get_prop_def set_prop_def
        precedes_def is_array_index_def is_digit_def assign_version_def settable_def)
  from addPackageJsonDeps_merge [of ?opts ?ps, OF h] obtain ps' where
    r: "addPackageJsonDeps (JObj ?ps) ?opts = Inr (JObj ps')" and
    a: "\<forall>sec. requested ?opts sec = None \<longrightarrow>
               get_prop ps' (section_name sec) = get_prop ?ps (section_name sec)" and
    p: "\<forall>sec entries. requested ?opts sec = Some entries \<longrightarrow>
         (\<exists>s'. get_prop ps' (section_name sec) = Some (JObj s') \<and>
            (\<forall>k v. distinct (map fst entries) \<and> (k, v) \<in> set entries
                     \<and> settable (section_props ?ps sec) k \<longrightarrow>
                     get_prop s' k = Some (JStr v)) \<and>
            (\<forall>k. k \<notin> fst ` set entries \<or> \<not> settable (section_props ?ps sec) k \<longrightarrow>
                     get_prop s' k = get_prop (section_props ?ps sec) k))" and
    o: "\<forall>k. k \<noteq> ''dependencies'' \<and> k \<noteq> ''devDependencies'' \<longrightarrow> get_prop ps' k = get_prop ?ps k"
    by blast
  have req: "requested ?opts DevDependencies = Some [(''b'', ''2.0.0'')]" by simp
  from p [rule_format, OF req] obtain s' where
    s: "get_prop ps' ''devDependencies'' = Some (JObj s')" and
    b: "\<forall>k v. distinct (map fst [(''b'', ''2.0.0'')]) \<and> (k, v) \<in> set [(''b'', ''2.0.0'')]
                     \<and> settable (section_props ?ps DevDependencies) k \<longrightarrow>
                     get_prop s' k = Some (JStr v)" and
    u: "\<forall>k. k \<notin> fst ` set [(''b'', ''2.0.0'')] \<or> \<not> settable (section_props ?ps DevDependencies) k \<longrightarrow>
             get_prop s' k = get_prop (section_props ?ps DevDependencies) k"
    by (elim exE conjE) (rule that; simp)
  have 1: "get_prop ps' ''dependencies'' = None"
    using a [rule_format, of Dependencies] by (simp add: get_prop_def)
  have 2: "get_prop s' ''b'' = Some (JStr ''2.0.0'')"
    using b [rule_format, of "''b''" "''2.0.0''"] st by (simp add: sp)
  have 3: "get_prop s' ''a'' = Some (JStr ''1.0.0'')"
    using u [rule_format, of "''a''"] by (simp add: sp get_prop_def)
  have 4: "get_prop ps' ''name'' = Some (JStr ''demo'')"
    using o [rule_format, of "''name''"] by (simp add: get_prop_def)
  have "distinct (map fst [(''b'', ''2.0.0'')])" by simp
  with m st e r s 1 2 3 4 show ?thesis by (intro conjI exI [of _ ps'] exI [of _ s'])
qed

text \<open>
  C1 as stated fails at the requested name \<^verbatim>\<open>__proto__\<close>: merging
  \<^verbatim>\<open>devDependencies: {["__proto__"]: "1.0.0"}\<close> into the manifest \<^verbatim>\<open>{}\<close> gives
  \<^verbatim>\<open>{"devDependencies": {}}\<close>, a section without the requested entry.
\<close>

theorem addPackageJsonDeps_proto_counterexample:
  "addPackageJsonDeps (JObj [])
       \<lparr>dependencies = None, devDependencies = Some [(''__proto__'', ''1.0.0'')]\<rparr>
     = Inr (JObj [(''devDependencies'', JObj [])])
   \<and> \<not> (\<exists>ps' s'. addPackageJsonDeps (JObj [])
            \<lparr>dependencies = None, devDependencies = Some [(''__proto__'', ''1.0.0'')]\<rparr> = Inr (JObj ps')
          \<and> get_prop ps' ''devDependencies'' = Some (JObj s')
          \<and> get_prop s' ''__proto__'' = Some (JStr ''1.0.0''))"
proof -
  have e: "addPackageJsonDeps (JObj [])
       \<lparr>dependencies = None, devDependencies = Some [(''__proto__'', ''1.0.0'')]\<rparr>
     = Inr (JObj [(''devDependencies'', JObj [])])"
    by (simp add: addPackageJsonDeps_def typeof_object_def addDeps_def get_prop_def set_prop_def
        precedes_def is_array_index_def is_digit_def assign_version_def settable_def)
  show ?thesis unfolding e by (auto simp: get_prop_def)
qed

text \<open>
  A string, a number or a boolean passes the guard \<^verbatim>\<open>typeof packageJson !== 'object'\<close>
  and comes back unchanged.
\<close>

lemma addPackageJsonDeps_primitive:
  "addPackageJsonDeps (JStr s) opts = Inr (JStr s)
   \<and> addPackageJsonDeps (JNum n) opts = Inr (JNum n)
   \<and> addPackageJsonDeps (JBool b) opts = Inr (JBool b)"
  by (simp add: addPackageJsonDeps_def typeof_object_def)

text \<open>
  C5 at \<^verbatim>\<open>null\<close>. \<^verbatim>\<open>typeof null\<close> is \<^verbatim>\<open>'object'\<close>, so \<^verbatim>\<open>null\<close> is not
  returned by the guard, and \<^verbatim>\<open>'devDependencies' in null\<close> throws a
  \<^verbatim>\<open>TypeError\<close>: the merge into \<^verbatim>\<open>null\<close> fails instead of returning \<^verbatim>\<open>null\<close>.
\<close>

theorem addPackageJsonDeps_null_throws:
  "addPackageJsonDeps JNull \<lparr>dependencies = None, devDependencies = Some [(''prettier'', ''2.4.1'')]\<rparr>
     = Inl TypeError"
  by (simp add: addPackageJsonDeps_def typeof_object_def addDeps_def)

section \<open>Properties of the JSON document store\<close>

lemma JSON_stringify_0: "JSON_stringify v 0 = SerializeJSONProperty [] [] v"
  by (simp add: JSON_stringify_def)

lemma JSON_stringify_2: "JSON_stringify v 2 = SerializeJSONProperty ''  '' [] v"
  by (simp add: JSON_stringify_def numeral_2_eq_2)

lemma JSON_stringify_4: "JSON_stringify v 4 = SerializeJSONProperty ''    '' [] v"
  by (simp add: JSON_stringify_def eval_nat_numeral)

lemma tree_exists_read: "tree_exists host path \<longleftrightarrow> (\<exists>contents. tree_read host path = Some contents)"
  by (simp add: tree_exists_def tree_read_def)

text \<open>
  C6. For every path: \<open>readJsonInTree\<close> fails with the not-found error exactly when the
  path does not exist in the tree. When it exists, with the text \<open>contents\<close>, the text is
  stripped of comments and parsed; the read fails with the parse error of this path and a
  message exactly when the parser fails with that message, and returns a document exactly
  when the parser returns it.
\<close>

theorem readJsonInTree_contract:
  "(readJsonInTree E host path = Inl (NotFound path) \<longleftrightarrow> \<not> tree_exists host path)
   \<and> (\<forall>contents. tree_read host path = Some contents \<longrightarrow>
        (\<forall>message. readJsonInTree E host path = Inl (ParseError path message)
            \<longleftrightarrow> JSON_parse E (stripJsonComments E contents) = Inl message)
        \<and> (\<forall>json. readJsonInTree E host path = Inr json
            \<longleftrightarrow> JSON_parse E (stripJsonComments E contents) = Inr json))"
proof -
  have absent: "readJsonInTree E host path = Inl (NotFound path)" if "\<not> tree_exists host path"
    using that by (simp add: readJsonInTree_def NotFound_def)
  have present: "readJsonInTree E host path =
        (case JSON_parse E (stripJsonComments E contents) of
           Inl message \<Rightarrow> Inl (ParseError path message) | Inr json \<Rightarrow> Inr json)"
    if "tree_read host path = Some contents" for contents
    using that tree_exists_read [of host path]
    by (cases "JSON_parse E (stripJsonComments E contents)")
       (simp_all add: readJsonInTree_def ParseError_def)
  have differ: "readJsonInTree E host path \<noteq> Inl (NotFound path)" if "tree_exists host path"
  proof -
    from that obtain contents where "tree_read host path = Some contents"
      by (auto simp: tree_exists_read)
    from present [OF this] show ?thesis
      by (cases "JSON_parse E (stripJsonComments E contents)") (simp_all add: ParseError_def NotFound_def)
  qed
  have inj: "ParseError path m = ParseError path m' \<longleftrightarrow> m = m'" for m m'
    by (simp add: ParseError_def)
  have "(\<forall>message. readJsonInTree E host path = Inl (ParseError path message)
            \<longleftrightarrow> JSON_parse E (stripJsonComments E contents) = Inl message)
        \<and> (\<forall>json. readJsonInTree E host path = Inr json
            \<longleftrightarrow> JSON_parse E (stripJsonComments E contents) = Inr json)"
    if "tree_read host path = Some contents" for contents
    using present [OF that] inj
    by (cases "JSON_parse E (stripJsonComments E contents)") auto
  with absent differ show ?thesis by blast
qed

text \<open>The sample workspace: its \<^verbatim>\<open>angular.json\<close> is read, \<^verbatim>\<open>tsconfig.json\<close> is not found.\<close>

lemma one_project_text:
  "JSON_stringify sample_workspace 0
     = [CHR ''{'', CHR 0x22] @ ''projects'' @ [CHR 0x22, CHR '':'', CHR ''{'', CHR 0x22] @ ''web''
       @ [CHR 0x22, CHR '':'', CHR ''{'', CHR 0x22] @ ''root'' @ [CHR 0x22, CHR '':'', CHR 0x22]
       @ ''apps/web'' @ [CHR 0x22] @ ''}}}''"
  by (simp add: sample_workspace_def JSON_stringify_0 wrap_def QuoteJSONString_def quote_unit_def)

lemma read_one_project:
  "readJsonInTree sample_env one_project_tree ''angular.json'' = Inr sample_workspace"
  by (simp add: readJsonInTree_def tree_exists_def tree_read_def tree_path_def one_project_tree_def
      sample_env_def sample_parse_def one_project_text)

theorem readJsonInTree_contract_witness:
  "tree_read one_project_tree ''angular.json'' = Some (JSON_stringify sample_workspace 0)
   \<and> JSON_parse sample_env (stripJsonComments sample_env (JSON_stringify sample_workspace 0))
        = Inr sample_workspace
   \<and> readJsonInTree sample_env one_project_tree ''angular.json'' = Inr sample_workspace
   \<and> \<not> tree_exists one_project_tree ''tsconfig.json''
   \<and> readJsonInTree sample_env one_project_tree ''tsconfig.json'' = Inl (NotFound ''tsconfig.json'')"
proof -
  have r: "tree_read one_project_tree ''angular.json'' = Some (JSON_stringify sample_workspace 0)"
    by (simp add: tree_read_def tree_path_def one_project_tree_def)
  have p: "JSON_parse sample_env (stripJsonComments sample_env (JSON_stringify sample_workspace 0))
        = Inr sample_workspace"
    by (simp add: sample_env_def sample_parse_def one_project_text)
  have n: "\<not> tree_exists one_project_tree ''tsconfig.json''"
    by (simp add: tree_exists_def tree_path_def one_project_tree_def)
  from readJsonInTree_contract [of sample_env one_project_tree "''angular.json''"] r p
  have 1: "readJsonInTree sample_env one_project_tree ''angular.json'' = Inr sample_workspace"
    by blast
  from readJsonInTree_contract [of sample_env one_project_tree "''tsconfig.json''"] n
  have 2: "readJsonInTree sample_env one_project_tree ''tsconfig.json'' = Inl (NotFound ''tsconfig.json'')"
    by blast
  from r p n 1 2 show ?thesis by blast
qed

text \<open>
  \<^verbatim>\<open>create\<close> is reached only where no file exists, and refuses where a directory does;
  \<^verbatim>\<open>overwrite\<close> is reached only for an existing file and does not refuse.
\<close>

lemma updateJsonInTree_cases:
  "updateJsonInTree E path callback w =
     (if \<not> tree_exists (tree w) path
      then (if is_directory (tree w) path then Inl (FileAlreadyExists (tree_path path), w)
            else if below_file (tree w) path then Inl (OutsideModel, w)
            else Inr (w\<lparr>tree := (tree w)(tree_path path \<mapsto>
                          serializeJson (callback (JObj []) (ctx w)))\<rparr>))
      else case readJsonInTree E (tree w) path of
             Inl e \<Rightarrow> Inl (e, w)
           | Inr json \<Rightarrow>
               Inr (w\<lparr>tree := (tree w)(tree_path path \<mapsto> serializeJson (callback json (ctx w)))\<rparr>))"
  by (cases "readJsonInTree E (tree w) path")
     (simp_all add: updateJsonInTree_def raising_def tree_create_def tree_overwrite_def)


text \<open>
  In the sample workspace \<^verbatim>\<open>.prettierrc.json\<close> is created and \<^verbatim>\<open>angular.json\<close> is
  rewritten; where \<^verbatim>\<open>.prettierrc.json\<close> is a directory the write is refused.
\<close>

lemma sample_paths:
  "plain_path ''.prettierrc.json''" "plain_path ''angular.json''" "plain_path ''.eslintrc.json''"
  "tree_path ''.prettierrc.json'' = ''/.prettierrc.json''"
  "tree_path ''angular.json'' = ''/angular.json''"
  "tree_path ''.eslintrc.json'' = ''/.eslintrc.json''"
  "tree_path ''package.json'' = ''/package.json''"
  by (simp_all add: plain_path_def plain_segment_def tree_path_def)

lemma one_project_tree_entries:
  "\<not> tree_exists one_project_tree ''.prettierrc.json''"
  "\<not> is_directory one_project_tree ''.prettierrc.json''"
  "\<not> below_file one_project_tree ''.prettierrc.json''"
  "\<not> tree_exists one_project_tree ''.eslintrc.json''"
  "\<not> is_directory one_project_tree ''.eslintrc.json''"
  "\<not> below_file one_project_tree ''.eslintrc.json''"
  "tree_exists one_project_tree ''angular.json''"
  "tree_exists one_project_tree ''package.json''"
  by (simp_all add: tree_exists_def is_directory_def below_file_def tree_path_def one_project_tree_def)




section \<open>Properties of project resolution\<close>

text \<open>
  C8. The workspace descriptor is the first existing path among \<^verbatim>\<open>/workspace.json\<close>,
  \<^verbatim>\<open>/angular.json\<close>, \<^verbatim>\<open>/.angular.json\<close>, in that order: a later candidate is taken
  only when every earlier one is absent, and there is none when all three are absent.
\<close>

theorem getWorkspacePath_priority:
  "getWorkspacePath host =
     (if tree_exists host ''/workspace.json'' then Some ''/workspace.json''
      else if tree_exists host ''/angular.json'' then Some ''/angular.json''
      else if tree_exists host ''/.angular.json'' then Some ''/.angular.json''
      else None)"
  by (simp add: getWorkspacePath_def possibleFiles_def)

lemma two_projects_text:
  "JSON_stringify two_projects 0
     = [CHR ''{'', CHR 0x22] @ ''projects'' @ [CHR 0x22, CHR '':'', CHR ''{'', CHR 0x22] @ ''web''
       @ [CHR 0x22, CHR '':'', CHR ''{'', CHR 0x22] @ ''root'' @ [CHR 0x22, CHR '':'', CHR 0x22]
       @ ''apps/web'' @ [CHR 0x22, CHR '','', CHR 0x22] @ ''prefix'' @ [CHR 0x22, CHR '':'', CHR 0x22]
       @ ''web'' @ [CHR 0x22] @ ''},'' @ [CHR 0x22] @ ''admin'' @ [CHR 0x22, CHR '':'', CHR ''{'', CHR 0x22]
       @ ''root'' @ [CHR 0x22, CHR '':'', CHR 0x22] @ ''apps/admin'' @ [CHR 0x22] @ ''}}}''"
  by (simp add: two_projects_def JSON_stringify_0 wrap_def QuoteJSONString_def quote_unit_def)

lemma read_two_projects:
  "readJsonInTree sample_env two_projects_tree ''/angular.json'' = Inr two_projects"
  by (simp add: readJsonInTree_def tree_exists_def tree_read_def tree_path_def two_projects_tree_def
      sample_env_def sample_parse_def one_project_text two_projects_text)

lemma read_one_project_abs:
  "readJsonInTree sample_env one_project_tree ''/angular.json'' = Inr sample_workspace"
  by (simp add: readJsonInTree_def tree_exists_def tree_read_def tree_path_def one_project_tree_def
      sample_env_def sample_parse_def one_project_text)

lemma workspace_path_samples:
  "getWorkspacePath one_project_tree = Some ''/angular.json''"
  "getWorkspacePath two_projects_tree = Some ''/angular.json''"
  by (simp_all add: getWorkspacePath_def possibleFiles_def tree_exists_def tree_path_def
      one_project_tree_def two_projects_tree_def)

text \<open>
  C10. A non-empty project hint is returned as it is, whatever the tree holds and whatever
  the parser does: no file is read and the hint is not looked up among the projects. The
  empty hint is treated as the absent one, and with an absent hint the workspace descriptor
  is read: a failure of that read is the failure of the resolution.
\<close>

theorem determineTargetProjectName_hint:
  "(hint \<noteq> [] \<longrightarrow> determineTargetProjectName E host (Some hint) = Inr (Some hint))
   \<and> determineTargetProjectName E host (Some []) = determineTargetProjectName E host None
   \<and> (\<forall>e. readJsonInTree E host
              (case getWorkspacePath host of None \<Rightarrow> ''undefined'' | Some path \<Rightarrow> path) = Inl e
          \<longrightarrow> determineTargetProjectName E host None = Inl e)"
  by (simp add: determineTargetProjectName_def truthy_def)

text \<open>
  The hint \<^verbatim>\<open>ghost\<close> names no project of the sample workspace and is returned, also on
  an empty tree, where the resolution without a hint fails on the missing descriptor.
\<close>

theorem determineTargetProjectName_hint_witness:
  "''ghost'' \<noteq> []
   \<and> get_member sample_workspace ''projects'' = Inr (Some (JObj [(''web'', JObj [(''root'', JStr ''apps/web'')])]))
   \<and> determineTargetProjectName sample_env one_project_tree (Some ''ghost'') = Inr (Some ''ghost'')
   \<and> determineTargetProjectName sample_env Map.empty (Some ''ghost'') = Inr (Some ''ghost'')
   \<and> readJsonInTree sample_env Map.empty
        (case getWorkspacePath Map.empty of None \<Rightarrow> ''undefined'' | Some path \<Rightarrow> path)
        = Inl (NotFound ''undefined'')
   \<and> determineTargetProjectName sample_env Map.empty None = Inl (NotFound ''undefined'')"
proof -
  have r: "readJsonInTree sample_env Map.empty
        (case getWorkspacePath Map.empty of None \<Rightarrow> ''undefined'' | Some path \<Rightarrow> path)
        = Inl (NotFound ''undefined'')"
    by (simp add: getWorkspacePath_def possibleFiles_def tree_exists_def readJsonInTree_def NotFound_def)
  have m: "get_member sample_workspace ''projects''
      = Inr (Some (JObj [(''web'', JObj [(''root'', JStr ''apps/web'')])]))"
    by (simp add: get_member_def sample_workspace_def get_prop_def)
  from determineTargetProjectName_hint [of "''ghost''" sample_env one_project_tree]
  have 1: "determineTargetProjectName sample_env one_project_tree (Some ''ghost'') = Inr (Some ''ghost'')"
    by simp
  from determineTargetProjectName_hint [of "''ghost''" sample_env Map.empty] r
  have 2: "determineTargetProjectName sample_env Map.empty (Some ''ghost'') = Inr (Some ''ghost'')"
    and 3: "determineTargetProjectName sample_env Map.empty None = Inl (NotFound ''undefined'')"
    by simp_all
  from r m 1 2 3 show ?thesis by simp
qed

lemma no_project_message_text:
  "no_project_message =
     [CHR 0x0A]
     @ ''Error: You must specify a project to add ESLint to because you have multiple projects in your angular.json''
     @ [CHR 0x0A]
     @ ''E.g. npx ng g angular-brulex-lint:configure-linters {{YOUR_PROJECT_NAME_GOES_HERE}}''"
  by (simp add: no_project_message_def trim_def is_space_def)

text \<open>
  C7. With no project hint (absent or empty) and a workspace descriptor that parses and
  holds a \<^verbatim>\<open>projects\<close> mapping: when the mapping lists more than one project the
  resolution returns no selection and the orchestration throws the error with the message
  below, in the very world it started in (no file created or overwritten, nothing logged,
  no task scheduled); when the mapping lists exactly one project the resolution returns
  that project. The message names the command-line form to use.
\<close>

theorem configureLinters_ambiguous:
  assumes "hint = None \<or> hint = Some []"
    and "getWorkspacePath (tree w) = Some path"
    and "readJsonInTree E (tree w) path = Inr workspaceJson"
    and "get_member workspaceJson ''projects'' = Inr (Some (JObj projects))"
  shows "(1 < length projects \<longrightarrow>
           determineTargetProjectName E (tree w) hint = Inr None
           \<and> configureLinters E hint w = Inl (Error no_project_message, w))
     \<and> (\<forall>name descriptor. projects = [(name, descriptor)] \<longrightarrow>
           determineTargetProjectName E (tree w) hint = Inr (Some name))
     \<and> no_project_message =
         [CHR 0x0A]
         @ ''Error: You must specify a project to add ESLint to because you have multiple projects in your angular.json''
         @ [CHR 0x0A]
         @ ''E.g. npx ng g angular-brulex-lint:configure-linters {{YOUR_PROJECT_NAME_GOES_HERE}}''"
proof -
  have f: "\<not> truthy hint" using assms(1) by (auto simp: truthy_def)
  have d: "determineTargetProjectName E (tree w) hint =
      (case keys projects of [project] \<Rightarrow> Inr (Some project) | _ \<Rightarrow> Inr None)"
    using f assms(2-4)
    by (simp add: determineTargetProjectName_def Object_keys_def own_properties_def)
  have many: "determineTargetProjectName E (tree w) hint = Inr None" if "1 < length projects"
  proof -
    from that obtain p q rest where "projects = p # q # rest"
      by (cases projects; cases "tl projects") auto
    then show ?thesis by (simp add: d)
  qed
  have one: "determineTargetProjectName E (tree w) hint = Inr (Some name)"
    if "projects = [(name, descriptor)]" for name descriptor
    using that by (simp add: d)
  have abort: "configureLinters E hint w = Inl (Error no_project_message, w)" if "1 < length projects"
    using many [OF that] by (simp add: configureLinters_def raising_def)
  from many abort one no_project_message_text show ?thesis by blast
qed

text \<open>The two sample workspaces: two projects abort, one project is selected.\<close>

theorem configureLinters_ambiguous_witness:
  "getWorkspacePath (tree (start two_projects_tree)) = Some ''/angular.json''
   \<and> readJsonInTree sample_env (tree (start two_projects_tree)) ''/angular.json'' = Inr two_projects
   \<and> get_member two_projects ''projects'' = Inr (Some (JObj
        [(''web'', JObj [(''root'', JStr ''apps/web''), (''prefix'', JStr ''web'')]),
         (''admin'', JObj [(''root'', JStr ''apps/admin'')])]))
   \<and> 1 < length [(''web'', JObj [(''root'', JStr ''apps/web''), (''prefix'', JStr ''web'')]),
                  (''admin'', JObj [(''root'', JStr ''apps/admin'')])]
   \<and> determineTargetProjectName sample_env (tree (start two_projects_tree)) None = Inr None
   \<and> configureLinters sample_env None (start two_projects_tree)
        = Inl (Error no_project_message, start two_projects_tree)
   \<and> getWorkspacePath (tree (start one_project_tree)) = Some ''/angular.json''
   \<and> readJsonInTree sample_env (tree (start one_project_tree)) ''/angular.json'' = Inr sample_workspace
   \<and> get_member sample_workspace ''projects''
        = Inr (Some (JObj [(''web'', JObj [(''root'', JStr ''apps/web'')])]))
   \<and> determineTargetProjectName sample_env (tree (start one_project_tree)) (Some []) = Inr (Some ''web'')"
proof -
  let ?two = "[(''web'', JObj [(''root'', JStr ''apps/web''), (''prefix'', JStr ''web'')]),
               (''admin'', JObj [(''root'', JStr ''apps/admin'')])]"
  let ?one = "[(''web'', JObj [(''root'', JStr ''apps/web'')])]"
  have t2: "tree (start two_projects_tree) = two_projects_tree"
    and t1: "tree (start one_project_tree) = one_project_tree"
    by (simp_all add: start_def)
  have p2: "getWorkspacePath (tree (start two_projects_tree)) = Some ''/angular.json''"
    and p1: "getWorkspacePath (tree (start one_project_tree)) = Some ''/angular.json''"
    by (simp_all only: t1 t2 workspace_path_samples)
  have r2: "readJsonInTree sample_env (tree (start two_projects_tree)) ''/angular.json'' = Inr two_projects"
    and r1: "readJsonInTree sample_env (tree (start one_project_tree)) ''/angular.json'' = Inr sample_workspace"
    by (simp_all only: t1 t2 read_two_projects read_one_project_abs)
  have m2: "get_member two_projects ''projects'' = Inr (Some (JObj ?two))"
    and m1: "get_member sample_workspace ''projects'' = Inr (Some (JObj ?one))"
    by (simp_all add: get_member_def two_projects_def sample_workspace_def get_prop_def)
  have h2: "(None :: string option) = None \<or> None = Some []" by simp
  have h1: "Some [] = None \<or> Some [] = Some ([] :: string)" by simp
  from configureLinters_ambiguous [OF h2 p2 r2 m2]
  have a: "determineTargetProjectName sample_env (tree (start two_projects_tree)) None = Inr None"
    and b: "configureLinters sample_env None (start two_projects_tree)
        = Inl (Error no_project_message, start two_projects_tree)"
    by simp_all
  from configureLinters_ambiguous [OF h1 p1 r1 m1]
  have c: "determineTargetProjectName sample_env (tree (start one_project_tree)) (Some []) = Inr (Some ''web'')"
    by simp
  from p2 r2 m2 a b p1 r1 m1 c show ?thesis by simp
qed

section \<open>Properties of the serialization\<close>

lemma digit_char_not_newline: "d < 10 \<Longrightarrow> digit_char d \<noteq> CHR 0x0A"
proof -
  assume "d < 10"
  then have "digit_char d \<in> set ''0123456789''"
    unfolding digit_char_def by (intro nth_mem) simp
  then show ?thesis by auto
qed

lemma dec_last: "dec n \<noteq> [] \<and> last (dec n) = digit_char (n mod 10)"
  by (subst (1 2) dec.simps) simp

lemma show_int_last: "show_int i \<noteq> [] \<and> last (show_int i) \<noteq> CHR 0x0A"
  using dec_last digit_char_not_newline [of "nat i mod 10"] digit_char_not_newline [of "nat (- i) mod 10"]
  by (simp add: show_int_def)

lemma wrap_last: "closing \<noteq> [] \<Longrightarrow> wrap gap stepback opening closing partial \<noteq> []
    \<and> last (wrap gap stepback opening closing partial) = last closing"
  by (simp add: wrap_def)

lemma serialize_last:
  "SerializeJSONProperty gap indent v \<noteq> [] \<and> last (SerializeJSONProperty gap indent v) \<noteq> CHR 0x0A"
  by (cases v) (simp_all add: show_int_last QuoteJSONString_def wrap_last)

lemma serialize_members_map:
  "serialize_members gap indent ps =
     map (\<lambda>(k, v). QuoteJSONString k @ '':'' @ (if gap = [] then [] else '' '')
                     @ SerializeJSONProperty gap indent v) ps"
  by (induction ps) auto

lemma serialize_object_layout:
  "gap \<noteq> [] \<Longrightarrow> ps \<noteq> [] \<Longrightarrow>
   SerializeJSONProperty gap indent (JObj ps) =
     ''{'' @ [CHR 0x0A] @ indent @ gap
     @ join_strings ('','' @ [CHR 0x0A] @ indent @ gap)
         (map (\<lambda>(k, v). QuoteJSONString k @ '': '' @ SerializeJSONProperty gap (indent @ gap) v) ps)
     @ [CHR 0x0A] @ indent @ ''}''"
  by (simp add: serialize_members_map wrap_def)

lemma add_packages_written:
  assumes "add_packages E packages message w = Inr w'"
  shows "\<exists>json. w' = w\<lparr>tree := (tree w)(''/package.json'' \<mapsto> JSON_stringify json 4),
                        ctx := (ctx w)\<lparr>logged := logged (ctx w) @ [message]\<rparr>\<rparr>"
proof -
  have p: "tree_path ''package.json'' = ''/package.json''" by (simp add: tree_path_def)
  show ?thesis
    using assms unfolding add_packages_def raising_def tree_overwrite_def p
    by (auto split: if_splits option.splits sum.splits)
qed

lemma eslint_rule_written:
  assumes "updateESLintConfigForProject E projectName w = Inr w'"
  shows "\<exists>prefix. w' = w\<lparr>tree := (tree w)(''/.eslintrc.json'' \<mapsto>
                       serializeJson (createProjectESLintConfig prefix))\<rparr>"
proof -
  have p: "tree_path ''.eslintrc.json'' = ''/.eslintrc.json''" by (simp add: tree_path_def)
  show ?thesis
    using assms unfolding updateESLintConfigForProject_def raising_def updateJsonInTree_cases p Let_def
    by (auto split: if_splits sum.splits)
qed

lemma stylelint_rule_written:
  assumes "addStylelintConfigForProject E projectName w = Inr w'"
  shows "\<exists>path. w' = w\<lparr>tree := (tree w)(tree_path path \<mapsto> serializeJson createProjectStylelintConfig)\<rparr>"
  using assms unfolding addStylelintConfigForProject_def raising_def updateJsonInTree_cases
  by (auto split: if_splits sum.splits)

lemma prettier_rule_written:
  assumes "addPrettierConfigForProject E projectName w = Inr w'"
  shows "\<exists>path. tree w' = (tree w)(tree_path path \<mapsto> serializeJson createPrettierConfig)"
  using assms unfolding addPrettierConfigForProject_def raising_def updateJsonInTree_cases Let_def
  by (auto split: if_splits sum.splits)

lemma updateJsonInTree_written:
  assumes "updateJsonInTree E path callback w = Inr w'"
  shows "\<exists>json. w' = w\<lparr>tree := (tree w)(tree_path path \<mapsto> serializeJson (callback json (ctx w)))\<rparr>"
  using assms unfolding updateJsonInTree_cases
  by (auto split: if_splits sum.splits)

lemma package_rules_written:
  assumes "addPrettierPackages E w = Inr w' \<or> addESLintPluginsPackages E w = Inr w'
           \<or> addStylelintPackages E w = Inr w'"
  shows "\<exists>json. tree w' = (tree w)(''/package.json'' \<mapsto> JSON_stringify json 4)"
proof -
  from assms obtain packages message where "add_packages E packages message w = Inr w'"
    unfolding addPrettierPackages_def addESLintPluginsPackages_def addStylelintPackages_def by blast
  from add_packages_written [OF this] show ?thesis by auto
qed

lemma stringify_4_last:
  "JSON_stringify json 4 = SerializeJSONProperty ''    '' [] json \<and> last (JSON_stringify json 4) \<noteq> CHR 0x0A"
  using serialize_last [of "''    ''" "[]" json] by (simp add: JSON_stringify_4)

lemma serializeJson_layout: "serializeJson json = SerializeJSONProperty ''  '' [] json @ [CHR 0x0A]"
  by (simp add: serializeJson_def JSON_stringify_2)

text \<open>
  C3 (as the code has it). The three configuration documents (the root linter
  configuration, the per-project style-linter and formatter configurations), like every
  document written by \<open>updateJsonInTree\<close>, are written as \<open>serializeJson\<close> of the document:
  \<^verbatim>\<open>JSON.stringify\<close> with a gap of two blanks, followed by a newline. The root manifest
  \<^verbatim>\<open>package.json\<close> is written by the three package writers as \<^verbatim>\<open>JSON.stringify\<close> with a
  gap of four blanks and nothing after it; that text never ends with a newline. In either
  form an object is laid out with one member per line, in the enumeration order of the
  value, each line indented by one gap more than the enclosing object.
\<close>

theorem written_documents_serialization:
  "(updateESLintConfigForProject E projectName w = Inr w' \<longrightarrow>
      (\<exists>prefix. tree w' = (tree w)(''/.eslintrc.json'' \<mapsto>
                   serializeJson (createProjectESLintConfig prefix))))
   \<and> (addStylelintConfigForProject E projectName w = Inr w' \<longrightarrow>
      (\<exists>path. tree w' = (tree w)(tree_path path \<mapsto> serializeJson createProjectStylelintConfig)))
   \<and> (addPrettierConfigForProject E projectName w = Inr w' \<longrightarrow>
      (\<exists>path. tree w' = (tree w)(tree_path path \<mapsto> serializeJson createPrettierConfig)))
   \<and> (updateJsonInTree E path callback w = Inr w' \<longrightarrow>
      (\<exists>json. tree w' = (tree w)(tree_path path \<mapsto> serializeJson (callback json (ctx w)))))
   \<and> (\<forall>json. serializeJson json = SerializeJSONProperty ''  '' [] json @ [CHR 0x0A])
   \<and> (addPrettierPackages E w = Inr w' \<or> addESLintPluginsPackages E w = Inr w'
        \<or> addStylelintPackages E w = Inr w' \<longrightarrow>
      (\<exists>json. tree w' = (tree w)(''/package.json'' \<mapsto> JSON_stringify json 4)))
   \<and> (\<forall>json. JSON_stringify json 4 = SerializeJSONProperty ''    '' [] json
          \<and> last (JSON_stringify json 4) \<noteq> CHR 0x0A)
   \<and> (\<forall>gap indent ps. gap \<noteq> [] \<and> ps \<noteq> [] \<longrightarrow>
        SerializeJSONProperty gap indent (JObj ps) =
          ''{'' @ [CHR 0x0A] @ indent @ gap
          @ join_strings ('','' @ [CHR 0x0A] @ indent @ gap)
              (map (\<lambda>(k, v). QuoteJSONString k @ '': '' @ SerializeJSONProperty gap (indent @ gap) v) ps)
          @ [CHR 0x0A] @ indent @ ''}'')"
proof -
  have 1: "\<exists>prefix. tree w' = (tree w)(''/.eslintrc.json'' \<mapsto>
                   serializeJson (createProjectESLintConfig prefix))"
    if "updateESLintConfigForProject E projectName w = Inr w'"
    using eslint_rule_written [OF that] by auto
  have 2: "\<exists>path. tree w' = (tree w)(tree_path path \<mapsto> serializeJson createProjectStylelintConfig)"
    if "addStylelintConfigForProject E projectName w = Inr w'"
    using stylelint_rule_written [OF that] by auto
  have 4: "\<exists>json. tree w' = (tree w)(tree_path path \<mapsto> serializeJson (callback json (ctx w)))"
    if "updateJsonInTree E path callback w = Inr w'"
    using updateJsonInTree_written [OF that] by auto
  from 1 2 prettier_rule_written [of E projectName w w'] 4 serializeJson_layout
    package_rules_written [of E w w'] stringify_4_last serialize_object_layout
  show ?thesis by (intro conjI allI impI) (blast | simp)+
qed

text \<open>
  In the sample workspace: the linter configuration, the manifest after adding the
  formatter packages, and the layout of a one-member object with a gap of four blanks.
\<close>

lemma eslint_config_sample:
  "updateESLintConfigForProject sample_env ''web'' (start one_project_tree)
     = Inr ((start one_project_tree)\<lparr>tree := (tree (start one_project_tree))(''/.eslintrc.json'' \<mapsto>
                   serializeJson (createProjectESLintConfig (JStr ''app'')))\<rparr>)"
proof -
  let ?w = "start one_project_tree"
  have t: "tree ?w = one_project_tree" by (simp add: start_def)
  have r: "readJsonInTree sample_env (tree ?w) ''angular.json'' = Inr sample_workspace"
    by (simp only: t read_one_project)
  have m: "get_member sample_workspace ''projects''
        = Inr (Some (JObj [(''web'', JObj [(''root'', JStr ''apps/web'')])]))"
    by (simp add: get_member_def sample_workspace_def get_prop_def)
  have g: "get_project sample_env (Some (JObj [(''web'', JObj [(''root'', JStr ''apps/web'')])])) ''web''
        = Inr (Value (JObj [(''root'', JStr ''apps/web'')]))"
    by (simp add: get_project_def own_properties_def get_prop_def)
  have d: "destructure (Value (JObj [(''root'', JStr ''apps/web'')])) ''prefix'' = Inr None"
    by (simp add: destructure_def get_member_def get_prop_def)
  have a: "\<not> tree_exists (tree ?w) ''.eslintrc.json''"
    "\<not> is_directory (tree ?w) ''.eslintrc.json''" "\<not> below_file (tree ?w) ''.eslintrc.json''"
    by (simp_all only: t one_project_tree_entries simp_thms)
  show ?thesis
    using a
    by (simp add: updateESLintConfigForProject_def r m g d raising_def updateJsonInTree_cases
        sample_paths)
qed

lemma prettier_packages_sample:
  "addPrettierPackages sample_env (start one_project_tree)
     = Inr \<lparr>tree = one_project_tree(''/package.json'' \<mapsto> JSON_stringify prettier_manifest 4),
            ctx = \<lparr>tasks = [], logged = [PrettierPackagesAdded]\<rparr>\<rparr>"
  by (simp add: addPrettierPackages_def add_packages_def raising_def start_def one_project_tree_def
      tree_exists_def tree_read_def tree_path_def tree_overwrite_def sample_env_def sample_parse_def
      addPackageJsonDeps_def typeof_object_def addDeps_def get_prop_def set_prop_def precedes_def
      is_array_index_def is_digit_def sort_devDependencies_def own_properties_def
      sortObjectByKeys_def spread_with_def prettier_manifest_def assign_version_def settable_def)

lemma prettier_manifest_text:
  "JSON_stringify prettier_manifest 4 =
     ''{'' @ [CHR 0x0A]
     @ ''    '' @ [CHR 0x22] @ ''devDependencies'' @ [CHR 0x22] @ '': {'' @ [CHR 0x0A]
     @ ''        '' @ [CHR 0x22] @ ''prettier'' @ [CHR 0x22] @ '': '' @ [CHR 0x22] @ ''2.4.1'' @ [CHR 0x22]
     @ '','' @ [CHR 0x0A]
     @ ''        '' @ [CHR 0x22] @ ''prettier-plugin-organize-attributes'' @ [CHR 0x22] @ '': ''
     @ [CHR 0x22] @ ''^0.0.4'' @ [CHR 0x22] @ [CHR 0x0A]
     @ ''    }'' @ [CHR 0x0A]
     @ ''}''"
  by (simp add: prettier_manifest_def JSON_stringify_4 wrap_def QuoteJSONString_def quote_unit_def)

theorem written_documents_serialization_witness:
  "updateESLintConfigForProject sample_env ''web'' (start one_project_tree)
     = Inr ((start one_project_tree)\<lparr>tree := (tree (start one_project_tree))(''/.eslintrc.json'' \<mapsto>
                   serializeJson (createProjectESLintConfig (JStr ''app'')))\<rparr>)
   \<and> (\<exists>prefix. tree ((start one_project_tree)\<lparr>tree := (tree (start one_project_tree))(''/.eslintrc.json'' \<mapsto>
                   serializeJson (createProjectESLintConfig (JStr ''app'')))\<rparr>)
         = (tree (start one_project_tree))(''/.eslintrc.json'' \<mapsto>
                   serializeJson (createProjectESLintConfig prefix)))
   \<and> addPrettierPackages sample_env (start one_project_tree)
     = Inr \<lparr>tree = one_project_tree(''/package.json'' \<mapsto> JSON_stringify prettier_manifest 4),
            ctx = \<lparr>tasks = [], logged = [PrettierPackagesAdded]\<rparr>\<rparr>
   \<and> (\<exists>json. tree \<lparr>tree = one_project_tree(''/package.json'' \<mapsto> JSON_stringify prettier_manifest 4),
            ctx = \<lparr>tasks = [], logged = [PrettierPackagesAdded]\<rparr>\<rparr>
         = (tree (start one_project_tree))(''/package.json'' \<mapsto> JSON_stringify json 4))
   \<and> ''    '' \<noteq> [] \<and> [(''tabWidth'', JNum 4)] \<noteq> []
   \<and> SerializeJSONProperty ''    '' [] (JObj [(''tabWidth'', JNum 4)])
       = ''{'' @ [CHR 0x0A] @ ''    '' @ [CHR 0x22] @ ''tabWidth'' @ [CHR 0x22] @ '': 4'' @ [CHR 0x0A] @ ''}''"
proof -
  let ?w = "start one_project_tree"
  let ?w2 = "?w\<lparr>tree := (tree ?w)(''/.eslintrc.json'' \<mapsto>
                   serializeJson (createProjectESLintConfig (JStr ''app'')))\<rparr>"
  let ?w1 = "\<lparr>tree = one_project_tree(''/package.json'' \<mapsto> JSON_stringify prettier_manifest 4),
            ctx = \<lparr>tasks = [], logged = [PrettierPackagesAdded]\<rparr>\<rparr>"
  have e: "updateESLintConfigForProject sample_env ''web'' ?w = Inr ?w2"
    by (rule eslint_config_sample)
  from written_documents_serialization [of sample_env "''web''" ?w ?w2] e
  have 1: "\<exists>prefix. tree ?w2 = (tree ?w)(''/.eslintrc.json'' \<mapsto>
                   serializeJson (createProjectESLintConfig prefix))"
    by blast
  from written_documents_serialization [of sample_env _ ?w ?w1] prettier_packages_sample
  have 2: "\<exists>json. tree ?w1 = (tree ?w)(''/package.json'' \<mapsto> JSON_stringify json 4)"
    by blast
  have g: "''    '' \<noteq> []" "[(''tabWidth'', JNum 4)] \<noteq> []" by simp_all
  from written_documents_serialization [of sample_env "''web''" ?w ?w2] g
  have "SerializeJSONProperty ''    '' [] (JObj [(''tabWidth'', JNum 4)]) =
          ''{'' @ [CHR 0x0A] @ [] @ ''    ''
          @ join_strings ('','' @ [CHR 0x0A] @ [] @ ''    '')
              (map (\<lambda>(k, v). QuoteJSONString k @ '': '' @ SerializeJSONProperty ''    '' ([] @ ''    '') v)
                 [(''tabWidth'', JNum 4)])
          @ [CHR 0x0A] @ [] @ ''}''"
    by blast
  then have 3: "SerializeJSONProperty ''    '' [] (JObj [(''tabWidth'', JNum 4)])
       = ''{'' @ [CHR 0x0A] @ ''    '' @ [CHR 0x22] @ ''tabWidth'' @ [CHR 0x22] @ '': 4'' @ [CHR 0x0A] @ ''}''"
    by (simp add: QuoteJSONString_def quote_unit_def show_int_def dec.simps digit_char_def)
  from e 1 prettier_packages_sample 2 g 3 show ?thesis by blast
qed

text \<open>
  C3 as stated fails for the manifest: adding the formatter packages to the
  \<^verbatim>\<open>package.json\<close> \<^verbatim>\<open>{}\<close> writes the text below, indented by four and eight blanks
  and without a final newline, which is the two-blank serialization of no document.
\<close>

theorem package_json_serialization_counterexample:
  "\<exists>w'. addPrettierPackages sample_env (start one_project_tree) = Inr w'
      \<and> tree w' ''/package.json'' = Some
          (''{'' @ [CHR 0x0A]
           @ ''    '' @ [CHR 0x22] @ ''devDependencies'' @ [CHR 0x22] @ '': {'' @ [CHR 0x0A]
           @ ''        '' @ [CHR 0x22] @ ''prettier'' @ [CHR 0x22] @ '': '' @ [CHR 0x22] @ ''2.4.1'' @ [CHR 0x22]
           @ '','' @ [CHR 0x0A]
           @ ''        '' @ [CHR 0x22] @ ''prettier-plugin-organize-attributes'' @ [CHR 0x22] @ '': ''
           @ [CHR 0x22] @ ''^0.0.4'' @ [CHR 0x22] @ [CHR 0x0A]
           @ ''    }'' @ [CHR 0x0A]
           @ ''}'')
      \<and> (\<forall>json. tree w' ''/package.json'' \<noteq> Some (serializeJson json))"
proof -
  have "JSON_stringify prettier_manifest 4 \<noteq> serializeJson json" for json
  proof
    assume "JSON_stringify prettier_manifest 4 = serializeJson json"
    then have "last (JSON_stringify prettier_manifest 4) = last (serializeJson json)" by simp
    then show False by (simp add: prettier_manifest_text serializeJson_def)
  qed
  then show ?thesis
    unfolding prettier_packages_sample by (simp add: prettier_manifest_text)
qed

section \<open>Properties of the linter configuration\<close>

subsection \<open>The prefix inside the document and inside the written text\<close>





















subsection \<open>The rule and the orchestration\<close>
















subsection \<open>A run in a workspace with two descriptor files\<close>




































end
